theory Spec2Isabelle
  imports Complex_Main
begin

section \<open>JavaScript values, errors and small helpers\<close>

text \<open>
  A thrown JavaScript value is an error object with a message; the generator only ever
  reads \<^verbatim>\<open>error.message\<close>. \<open>Error\<close> is \<^verbatim>\<open>new Error(m)\<close>, \<open>TypeError\<close> is what the
  runtime raises for a property read on null/undefined and what \<^verbatim>\<open>fetch\<close> rejects with,
  \<open>SyntaxError\<close> is what \<^verbatim>\<open>response.json()\<close> rejects with, and \<open>DOMException\<close> (name,
  message) is what an IndexedDB request fails with.
\<close>

datatype js_error =
    Error string
  | TypeError string
  | SyntaxError string
  | DOMException string string

fun message :: "js_error \<Rightarrow> string" where
  "message (Error m) = m"
| "message (TypeError m) = m"
| "message (SyntaxError m) = m"
| "message (DOMException n m) = m"

text \<open>
  \<^verbatim>\<open>a || b\<close> on a possibly missing string or number: \<open>None\<close> is null/undefined, and
  the empty string and the number zero are falsy too.
\<close>

fun truthy_str :: "string option \<Rightarrow> bool" where
  "truthy_str None = False"
| "truthy_str (Some s) = (s \<noteq> [])"

definition or_str :: "string option \<Rightarrow> string option \<Rightarrow> string option" where
  "or_str a b = (if truthy_str a then a else b)"

fun truthy_num :: "rat option \<Rightarrow> bool" where
  "truthy_num None = False"
| "truthy_num (Some r) = (r \<noteq> 0)"

definition or_num :: "rat option \<Rightarrow> rat option \<Rightarrow> rat option" where
  "or_num a b = (if truthy_num a then a else b)"

text \<open>\<^verbatim>\<open>s.includes(sub)\<close>: \<open>sub\<close> occurs in \<open>s\<close> as a contiguous run.\<close>

definition startsWith :: "string \<Rightarrow> string \<Rightarrow> bool" where
  "startsWith s sub = (take (length sub) s = sub)"

fun includes_str :: "string \<Rightarrow> string \<Rightarrow> bool" where
  "includes_str [] sub = (sub = [])"
| "includes_str (c # cs) sub = (startsWith (c # cs) sub \<or> includes_str cs sub)"

text \<open>A number inside a template literal: its decimal digits.\<close>

definition digit :: "nat \<Rightarrow> char" where
  "digit d = ''0123456789'' ! d"

fun show_nat :: "nat \<Rightarrow> string" where
  "show_nat n = (if n < 10 then [digit n] else show_nat (n div 10) @ [digit (n mod 10)])"

declare show_nat.simps [simp del]

section \<open>The video history store (utils/video-history.js)\<close>

text \<open>
  The object store \<^verbatim>\<open>videos\<close> is created by \<^verbatim>\<open>init\<close> with key path \<^verbatim>\<open>id\<close>
  (auto-increment; the field \<open>key\<close> here) and a unique index on \<^verbatim>\<open>videoId\<close>. A record
  whose \<^verbatim>\<open>videoId\<close> is undefined (\<open>None\<close>) has no entry in that index.
\<close>

record video =
  key :: nat
  videoId :: "string option"
  videoUrl :: "string option"
  status :: string
  createdAt :: string
  avatarId :: "string option"
  avatarName :: "string option"
  voiceType :: "string option"
  voiceName :: "string option"
  transcript :: "string option"
  duration :: "rat option"
  thumbnailUrl :: "string option"

text \<open>The argument object of \<^verbatim>\<open>addVideo\<close>: every property may be missing.\<close>

record videoData =
  videoId' :: "string option"
  videoUrl' :: "string option"
  status' :: "string option"
  avatarId' :: "string option"
  avatarName' :: "string option"
  voiceType' :: "string option"
  voiceName' :: "string option"
  transcript' :: "string option"
  duration' :: "rat option"
  thumbnailUrl' :: "string option"

text \<open>The \<^verbatim>\<open>updates\<close> object of \<^verbatim>\<open>updateVideo\<close>, as the list of its own properties.\<close>

datatype field_update =
    Set_status string
  | Set_videoUrl "string option"
  | Set_thumbnailUrl "string option"
  | Set_duration "rat option"

record object_store =
  records :: "video list"
  keygen :: nat

text \<open>
  The manager's \<^verbatim>\<open>this.db\<close>: \<open>None\<close> until \<^verbatim>\<open>init\<close> has opened the database.
\<close>

type_synonym history = "object_store option"

definition init :: "object_store option \<Rightarrow> history" where
  "init persisted =
     (case persisted of
        None \<Rightarrow> Some \<lparr>records = [], keygen = 1\<rparr>
      | Some s \<Rightarrow> Some s)"

definition db_null_error :: js_error where
  "db_null_error = TypeError ''Cannot read properties of null (reading 'transaction')''"

text \<open>
  The messages of the DOMExceptions are the browser's; the ones of Chromium are used.
\<close>

definition ConstraintError :: js_error where
  "ConstraintError = DOMException ''ConstraintError''
     ''Unable to add key to index 'videoId': at least one key does not satisfy the uniqueness requirements.''"

definition DataError :: js_error where
  "DataError = DOMException ''DataError''
     ''Failed to execute 'get' on 'IDBIndex': No key or key range specified.''"

text \<open>
  \<^verbatim>\<open>index.get(videoId)\<close> on the \<^verbatim>\<open>videoId\<close> index. An \<^verbatim>\<open>add\<close> request fails when
  another record has the same \<^verbatim>\<open>videoId\<close>, the index being unique, or when the key it is
  given is taken, which no store written by \<^verbatim>\<open>addVideo\<close> alone ever shows.
\<close>

definition index_get :: "string \<Rightarrow> object_store \<Rightarrow> video option" where
  "index_get k s = find (\<lambda>v. videoId v = Some k) (records s)"

definition violates_unique :: "video \<Rightarrow> object_store \<Rightarrow> bool" where
  "violates_unique v s =
     (list_ex (\<lambda>x. key x = key v) (records s) \<or>
      (case videoId v of
         None \<Rightarrow> False
       | Some k \<Rightarrow> index_get k s \<noteq> None))"

definition new_video :: "videoData \<Rightarrow> string \<Rightarrow> nat \<Rightarrow> video" where
  "new_video d now k =
     \<lparr>key = k,
      videoId = videoId' d,
      videoUrl = or_str (videoUrl' d) None,
      status = (case or_str (status' d) (Some ''processing'') of
                  Some s \<Rightarrow> s | None \<Rightarrow> ''processing''),
      createdAt = now,
      avatarId = or_str (avatarId' d) None,
      avatarName = or_str (avatarName' d) None,
      voiceType = or_str (voiceType' d) None,
      voiceName = or_str (voiceName' d) None,
      transcript = or_str (transcript' d) None,
      duration = or_num (duration' d) None,
      thumbnailUrl = or_str (thumbnailUrl' d) None\<rparr>"

text \<open>
  \<^verbatim>\<open>addVideo(videoData)\<close>; \<open>now\<close> is \<^verbatim>\<open>new Date().toISOString()\<close>. The promise rejects
  with \<^verbatim>\<open>request.error\<close> when the \<^verbatim>\<open>add\<close> request fails, which leaves the store as it
  was, and resolves with the generated key otherwise.
\<close>

definition addVideo :: "videoData \<Rightarrow> string \<Rightarrow> history \<Rightarrow> (js_error + nat) \<times> history" where
  "addVideo d now h =
     (case h of
        None \<Rightarrow> (Inl db_null_error, None)
      | Some s \<Rightarrow>
          (let v = new_video d now (keygen s) in
           if violates_unique v s then (Inl ConstraintError, Some s)
           else (Inr (key v), Some (s\<lparr>records := records s @ [v], keygen := keygen s + 1\<rparr>))))"

fun assign :: "video \<Rightarrow> field_update \<Rightarrow> video" where
  "assign v (Set_status x) = v\<lparr>status := x\<rparr>"
| "assign v (Set_videoUrl x) = v\<lparr>videoUrl := x\<rparr>"
| "assign v (Set_thumbnailUrl x) = v\<lparr>thumbnailUrl := x\<rparr>"
| "assign v (Set_duration x) = v\<lparr>duration := x\<rparr>"

definition put :: "video \<Rightarrow> object_store \<Rightarrow> object_store" where
  "put v s = s\<lparr>records := map (\<lambda>x. if key x = key v then v else x) (records s)\<rparr>"

text \<open>
  \<^verbatim>\<open>updateVideo(videoId, updates)\<close>: looks the record up through the \<^verbatim>\<open>videoId\<close> index,
  rejects with \<^verbatim>\<open>Video not found\<close> when there is none, and otherwise writes the record
  back with \<^verbatim>\<open>Object.assign(video, updates)\<close> applied.
\<close>

definition updateVideo ::
  "string option \<Rightarrow> field_update list \<Rightarrow> history \<Rightarrow> (js_error + unit) \<times> history" where
  "updateVideo vid updates h =
     (case h of
        None \<Rightarrow> (Inl db_null_error, None)
      | Some s \<Rightarrow>
          (case vid of
             None \<Rightarrow> (Inl DataError, Some s)
           | Some k \<Rightarrow>
               (case index_get k s of
                  None \<Rightarrow> (Inl (Error ''Video not found''), Some s)
                | Some v \<Rightarrow> (Inr (), Some (put (foldl assign v updates) s)))))"

definition getVideo :: "string option \<Rightarrow> history \<Rightarrow> js_error + video option" where
  "getVideo vid h =
     (case h of
        None \<Rightarrow> Inl db_null_error
      | Some s \<Rightarrow>
          (case vid of
             None \<Rightarrow> Inl DataError
           | Some k \<Rightarrow> Inr (index_get k s)))"

text \<open>The records of an open store that carry a given remote video id.\<close>

definition with_videoId :: "string \<Rightarrow> history \<Rightarrow> video list" where
  "with_videoId k h =
     (case h of None \<Rightarrow> [] | Some s \<Rightarrow> filter (\<lambda>v. videoId v = Some k) (records s))"

section \<open>Observable effects\<close>

text \<open>
  A run is observed through the calls it makes on its collaborators, in order: the
  browser alert, the loading modal, the transcription service, the audio converter, the
  HTTP requests of the HeyGen service, the history store, the timer and the video modal.
  Console output and the generator's own \<^verbatim>\<open>currentVideoId\<close> and \<^verbatim>\<open>currentVideoUrl\<close>
  are not recorded.
\<close>

datatype blob = Blob (blob_type: string) (content: string)

datatype character_config =
    PhotoCharacter string
  | AvatarCharacter string string

datatype voice_config =
    TextVoice string
  | AudioVoice "string option"

datatype voice_input =
    TextInput string string
  | AudioInput "string option"

record request_body =
  rb_character :: "character_config option"
  rb_voice :: voice_input
  rb_width :: nat
  rb_height :: nat
  rb_aspect_ratio :: string
  rb_test :: bool

datatype event =
    Alert string
  | ModalShow string
  | ModalStatus string
  | ModalHideAfter nat
  | GetTranscript "blob option"
  | ConvertAudio "blob option"
  | FetchUploadAsset string blob
  | FetchCreateVideo request_body
  | FetchVideoStatus "string option"
  | AddVideo videoData "js_error + nat"
  | UpdateVideo "string option" "field_update list" "js_error + unit"
  | Sleep nat
  | DisplayVideo "string option" "string option"

text \<open>
  The calls that leave the browser: the transcription service, and the three HeyGen
  requests (asset upload, render submission, status poll).
\<close>

fun is_remote :: "event \<Rightarrow> bool" where
  "is_remote (GetTranscript b) = True"
| "is_remote (FetchUploadAsset t b) = True"
| "is_remote (FetchCreateVideo b) = True"
| "is_remote (FetchVideoStatus v) = True"
| "is_remote e = False"

fun is_poll :: "event \<Rightarrow> bool" where
  "is_poll (FetchVideoStatus v) = True"
| "is_poll e = False"

fun is_update :: "event \<Rightarrow> bool" where
  "is_update (UpdateVideo v u r) = True"
| "is_update e = False"


section \<open>The loading modal (LoadingModal)\<close>

definition "show" :: "string \<Rightarrow> event list" where
  "show msg = [ModalShow msg]"

definition showTranscribing :: "event list" where
  "showTranscribing = [ModalStatus ''Transcribing your voice...'']"

definition showGenerating :: "event list" where
  "showGenerating = [ModalStatus ''Generating your video...'']"

definition showUploading :: "event list" where
  "showUploading = [ModalStatus ''Uploading assets...'']"

text \<open>The message of \<^verbatim>\<open>showComplete\<close> ends with U+1F389, here as its UTF-8 bytes.\<close>

definition showComplete :: "event list" where
  "showComplete =
     [ModalStatus (''Complete! '' @ [char_of (240::nat), char_of (159::nat), char_of (142::nat), char_of (137::nat)]),
      ModalHideAfter 1500]"

definition showError :: "string \<Rightarrow> event list" where
  "showError msg = [ModalStatus (''Error: '' @ msg), ModalHideAfter 3000]"

section \<open>The HeyGen service (HeyGenService) and CONFIG.VIDEO\<close>

definition POLL_INTERVAL :: nat where
  "POLL_INTERVAL = 3000"

definition MAX_POLL_ATTEMPTS :: nat where
  "MAX_POLL_ATTEMPTS = 200"

text \<open>
  What the body of a response that is not ok parses to, as \<^verbatim>\<open>createVideo\<close> reads it: it
  is not JSON, it is the JSON \<^verbatim>\<open>null\<close>, or it is any other value, with the \<^verbatim>\<open>message\<close>
  property it may have.
\<close>

datatype error_body =
    NotJson
  | JsonNull
  | JsonValue "string option"

text \<open>
  What one \<^verbatim>\<open>fetch\<close> of the service meets: the request itself fails (network or
  cross-origin: \<^verbatim>\<open>fetch\<close> rejects with a TypeError carrying the browser's message), the
  response is not ok (status, status text and body), the body of an ok response is not
  JSON, the body of an ok response is the JSON \<^verbatim>\<open>null\<close>, or the parsed \<^verbatim>\<open>data.data\<close>.
\<close>

datatype 'a fetched =
    NetworkFailure string
  | HttpFailure nat string error_body
  | InvalidJson string
  | NullBody
  | HttpSuccess 'a

record status_data =
  remote_status :: string
  video_url :: "string option"
  thumbnail_url :: "string option"
  remote_duration :: "rat option"

record asset =
  asset_id :: "string option"
  asset_url :: "string option"

text \<open>What \<^verbatim>\<open>data.data\<close> throws when the parsed body \<^verbatim>\<open>data\<close> is null.\<close>

definition null_data_error :: js_error where
  "null_data_error = TypeError ''Cannot read properties of null (reading 'data')''"

definition getVideoStatus ::
  "string option \<Rightarrow> status_data option fetched \<Rightarrow> (js_error + status_data option) \<times> event list" where
  "getVideoStatus vid reply =
     (case reply of
        NetworkFailure m \<Rightarrow> Inl (TypeError m)
      | HttpFailure c t b \<Rightarrow> Inl (Error (''Failed to get video status: '' @ t))
      | InvalidJson m \<Rightarrow> Inl (SyntaxError m)
      | NullBody \<Rightarrow> Inl null_data_error
      | HttpSuccess d \<Rightarrow> Inr d,
      [FetchVideoStatus vid])"

definition audio_content_type :: "blob \<Rightarrow> string" where
  "audio_content_type b =
     (if blob_type b = ''audio/wav'' \<or> blob_type b = ''audio/wave'' \<or> blob_type b = ''audio/x-wav''
      then ''audio/x-wav''
      else if blob_type b = ''audio/mpeg'' \<or> blob_type b = ''audio/mp3'' then ''audio/mpeg''
      else ''audio/x-wav'')"

definition uploadAsset ::
  "blob \<Rightarrow> string \<Rightarrow> asset option fetched \<Rightarrow> (js_error + asset option) \<times> event list" where
  "uploadAsset file type reply =
     (let contentType =
            (if type = ''audio'' then audio_content_type file
             else if blob_type file \<noteq> [] then blob_type file else ''image/jpeg'')
      in (case reply of
            NetworkFailure m \<Rightarrow> Inl (TypeError m)
          | HttpFailure c t b \<Rightarrow>
              Inl (Error (''Failed to upload asset: '' @ show_nat c @ '' '' @ t))
          | InvalidJson m \<Rightarrow> Inl (SyntaxError m)
          | NullBody \<Rightarrow> Inl null_data_error
          | HttpSuccess d \<Rightarrow> Inr d,
          [FetchUploadAsset contentType file]))"

record video_config =
  cfg_character :: "character_config option"
  cfg_voice :: voice_config
  cfg_text :: "string option"

definition or_default :: "string option \<Rightarrow> string \<Rightarrow> string" where
  "or_default a d = (case a of None \<Rightarrow> d | Some s \<Rightarrow> if s \<noteq> [] then s else d)"

text \<open>The request body \<^verbatim>\<open>createVideo\<close> builds from its \<^verbatim>\<open>config\<close>.\<close>

definition requestBody :: "video_config \<Rightarrow> request_body" where
  "requestBody config =
     \<lparr>rb_character = cfg_character config,
      rb_voice =
        (case cfg_voice config of
           TextVoice voice_id \<Rightarrow> TextInput voice_id (or_default (cfg_text config) [])
         | AudioVoice audio_asset_id \<Rightarrow> AudioInput audio_asset_id),
      rb_width = 1280,
      rb_height = 720,
      rb_aspect_ratio = ''16:9'',
      rb_test = False\<rparr>"

text \<open>
  On a response that is not ok, \<^verbatim>\<open>createVideo\<close> reads
  \<^verbatim>\<open>errorData.message || response.statusText\<close>, where \<^verbatim>\<open>errorData\<close> is the parsed body, or
  \<^verbatim>\<open>{}\<close> when it is not JSON; on the JSON \<^verbatim>\<open>null\<close> that read throws.
\<close>

definition null_message_error :: js_error where
  "null_message_error = TypeError ''Cannot read properties of null (reading 'message')''"

definition createVideo ::
  "video_config \<Rightarrow> string option fetched \<Rightarrow> (js_error + string option) \<times> event list" where
  "createVideo config reply =
     (case reply of
        NetworkFailure m \<Rightarrow> Inl (TypeError m)
      | HttpFailure c t b \<Rightarrow>
          (case b of
             NotJson \<Rightarrow> Inl (Error (''Failed to create video: '' @ t))
           | JsonNull \<Rightarrow> Inl null_message_error
           | JsonValue m \<Rightarrow> Inl (Error (''Failed to create video: '' @ or_default m t)))
      | InvalidJson m \<Rightarrow> Inl (SyntaxError m)
      | NullBody \<Rightarrow> Inl null_data_error
      | HttpSuccess video_id \<Rightarrow> Inr video_id,
      [FetchCreateVideo (requestBody config)])"

text \<open>
  A result that may still be awaited: \<open>None\<close> when the replies given run out before the
  call settles, \<open>Some (Inl e)\<close> when it throws \<open>e\<close>, \<open>Some (Inr x)\<close> when it returns \<open>x\<close>.
\<close>

type_synonym 'a settled = "(js_error + 'a) option"

definition undefined_status_error :: js_error where
  "undefined_status_error = TypeError ''Cannot read properties of undefined (reading 'status')''"

text \<open>
  \<^verbatim>\<open>waitForVideo\<close>, the bounded helper: the loop, entered with the attempts made so far
  and the replies the coming status requests will meet.
\<close>

fun waitForVideo_loop ::
  "string option \<Rightarrow> nat \<Rightarrow> status_data option fetched list \<Rightarrow> string option settled \<times> event list" where
  "waitForVideo_loop vid attempts [] =
     (if attempts < MAX_POLL_ATTEMPTS then (None, [])
      else (Some (Inl (Error ''Video generation timeout'')), []))"
| "waitForVideo_loop vid attempts (r # rs) =
     (if attempts < MAX_POLL_ATTEMPTS then
        (case getVideoStatus vid r of
           (Inl e, evs) \<Rightarrow> (Some (Inl e), evs)
         | (Inr None, evs) \<Rightarrow> (Some (Inl undefined_status_error), evs)
         | (Inr (Some st), evs) \<Rightarrow>
             if remote_status st = ''completed'' then (Some (Inr (video_url st)), evs)
             else if remote_status st = ''failed'' then
               (Some (Inl (Error ''Video generation failed'')), evs)
             else (case waitForVideo_loop vid (attempts + 1) rs of
                     (res, evs') \<Rightarrow> (res, evs @ [Sleep POLL_INTERVAL] @ evs')))
      else (Some (Inl (Error ''Video generation timeout'')), []))"

definition waitForVideo ::
  "string option \<Rightarrow> status_data option fetched list \<Rightarrow> string option settled \<times> event list" where
  "waitForVideo vid replies = waitForVideo_loop vid 0 replies"

section \<open>The selections the generator reads\<close>

record voice =
  voice_id :: string
  voice_name :: "string option"

record VoiceSelector =
  selectedVoice :: "voice option"
  useCustomVoice :: bool

datatype voice_selection =
    custom
  | preset voice

definition getSelectedVoice :: "VoiceSelector \<Rightarrow> voice_selection option" where
  "getSelectedVoice vs =
     (if useCustomVoice vs then Some custom
      else (case selectedVoice vs of Some v \<Rightarrow> Some (preset v) | None \<Rightarrow> None))"

fun selection_type :: "voice_selection \<Rightarrow> string" where
  "selection_type custom = ''custom''"
| "selection_type (preset v) = ''preset''"

record avatar =
  avatar_id :: string
  avatar_style :: "string option"
  avatar_name :: "string option"

record character =
  heygenId :: string
  name :: "string option"

text \<open>
  Everything a run of the generator reads from outside: the recorder's audio, the three
  selections, and what each collaborator answers. \<open>transcription\<close> is the outcome of
  \<^verbatim>\<open>assemblyAI.getTranscript\<close>; \<open>conversion\<close> is the WAV blob of
  \<^verbatim>\<open>audioConverter.convertToWAV\<close>, or \<open>None\<close> when it throws; \<open>clock\<close> is the time
  \<^verbatim>\<open>addVideo\<close> reads; \<open>status_replies\<close> are the answers to the successive status requests.
\<close>

record env =
  audioBlob :: "blob option"
  selectedAvatar :: "avatar option"
  selectedCharacter :: "character option"
  voiceSelector :: VoiceSelector
  transcription :: "js_error + string option"
  conversion :: "blob option"
  upload_reply :: "asset option fetched"
  create_reply :: "string option fetched"
  clock :: string
  status_replies :: "status_data option fetched list"

section \<open>The video generator (VideoGenerator)\<close>

record validation =
  valid :: bool
  validation_message :: string

definition validate :: "env \<Rightarrow> validation" where
  "validate w =
     (if audioBlob w = None then
        \<lparr>valid = False, validation_message = ''Please record your voice first''\<rparr>
      else if selectedAvatar w = None \<and> selectedCharacter w = None then
        \<lparr>valid = False, validation_message = ''Please select an avatar or character''\<rparr>
      else if getSelectedVoice (voiceSelector w) = None then
        \<lparr>valid = False, validation_message = ''Please select a voice option''\<rparr>
      else \<lparr>valid = True, validation_message = []\<rparr>)"

text \<open>\<^verbatim>\<open>audioConverter.convertWebMToMP3\<close>: any failure inside becomes one fixed error.\<close>

definition convertWebMToMP3 :: "blob option \<Rightarrow> blob option \<Rightarrow> (js_error + blob) \<times> event list" where
  "convertWebMToMP3 webmBlob outcome =
     (case outcome of
        None \<Rightarrow> Inl (Error ''Failed to convert audio format'')
      | Some wav \<Rightarrow> Inr wav,
      [ConvertAudio webmBlob])"

definition cors_message :: string where
  "cors_message = ''CORS Error: Cannot upload audio from localhost. Please deploy to a server or use HeyGen API with proper CORS configuration.''"

text \<open>The \<^verbatim>\<open>catch (uploadError)\<close> of the custom-voice branch: what it throws on.\<close>

definition catch_uploadError :: "js_error \<Rightarrow> js_error" where
  "catch_uploadError uploadError =
     (if includes_str (message uploadError) ''fetch'' \<or> includes_str (message uploadError) ''CORS''
      then Error cors_message
      else uploadError)"

definition undefined_id_error :: js_error where
  "undefined_id_error = TypeError ''Cannot read properties of undefined (reading 'id')''"

text \<open>
  Step 1 of \<^verbatim>\<open>generateVideo\<close>: the transcript and the voice configuration, by the
  kind of voice selected.
\<close>

definition voice_step ::
  "env \<Rightarrow> voice_selection \<Rightarrow> (js_error + string option \<times> voice_config) \<times> event list" where
  "voice_step w voiceSelection =
     (case voiceSelection of
        preset v \<Rightarrow>
          (case transcription w of
             Inl e \<Rightarrow> Inl e
           | Inr tscript \<Rightarrow> Inr (tscript, TextVoice (voice_id v)),
           showTranscribing @ [GetTranscript (audioBlob w)])
      | custom \<Rightarrow>
          (case convertWebMToMP3 (audioBlob w) (conversion w) of
             (Inl e, evs) \<Rightarrow> (Inl (catch_uploadError e), show ''Converting audio...'' @ evs)
           | (Inr wavBlob, evs) \<Rightarrow>
               (case uploadAsset wavBlob ''audio'' (upload_reply w) of
                  (Inl e, evs') \<Rightarrow>
                    (Inl (catch_uploadError e),
                     show ''Converting audio...'' @ evs @ showUploading @ evs')
                | (Inr None, evs') \<Rightarrow>
                    (Inl (catch_uploadError undefined_id_error),
                     show ''Converting audio...'' @ evs @ showUploading @ evs')
                | (Inr (Some uploadedAudio), evs') \<Rightarrow>
                    (Inr (None, AudioVoice (asset_id uploadedAudio)),
                     show ''Converting audio...'' @ evs @ showUploading @ evs'))))"

text \<open>Step 2: the character configuration and the name kept in the history.\<close>

definition character_step ::
  "avatar option \<Rightarrow> character option \<Rightarrow> character_config option \<times> string" where
  "character_step av ch =
     (case ch of
        Some c \<Rightarrow> (Some (PhotoCharacter (heygenId c)), or_default (name c) ''Custom Character'')
      | None \<Rightarrow>
          (case av of
             Some a \<Rightarrow>
               (Some (AvatarCharacter (avatar_id a) (or_default (avatar_style a) ''normal'')),
                or_default (avatar_name a) (avatar_id a))
           | None \<Rightarrow> (None, [])))"

definition failed_message :: string where
  "failed_message = ''Video generation failed''"

text \<open>
  One pass through the \<^verbatim>\<open>try\<close> block of the loop of \<^verbatim>\<open>waitForVideoWithHistory\<close>:
  \<open>Inl e\<close> when it throws \<open>e\<close>, \<open>Inr (Some url)\<close> when it returns, \<open>Inr None\<close> when it
  reaches its end (the status was not terminal; it has slept).
\<close>

definition poll_once ::
  "string option \<Rightarrow> nat \<Rightarrow> status_data option fetched \<Rightarrow> history \<Rightarrow>
     (js_error + string option option) \<times> history \<times> event list" where
  "poll_once vid attempts reply h =
     (case getVideoStatus vid reply of
        (Inl e, evs) \<Rightarrow> (Inl e, h, evs)
      | (Inr None, evs) \<Rightarrow> (Inl undefined_status_error, h, evs)
      | (Inr (Some st), evs) \<Rightarrow>
          if remote_status st = ''completed'' then
            (let updates = [Set_status ''completed'', Set_videoUrl (video_url st),
                            Set_thumbnailUrl (thumbnail_url st), Set_duration (remote_duration st)]
             in (case updateVideo vid updates h of
                   (Inl e, h') \<Rightarrow> (Inl e, h', evs @ [UpdateVideo vid updates (Inl e)])
                 | (Inr u, h') \<Rightarrow>
                     (Inr (Some (video_url st)), h', evs @ [UpdateVideo vid updates (Inr u)])))
          else if remote_status st = ''failed'' then
            (let updates = [Set_status ''failed'']
             in (case updateVideo vid updates h of
                   (Inl e, h') \<Rightarrow> (Inl e, h', evs @ [UpdateVideo vid updates (Inl e)])
                 | (Inr u, h') \<Rightarrow>
                     (Inl (Error failed_message), h', evs @ [UpdateVideo vid updates (Inr u)])))
          else
            (Inr None, h,
             evs @ show (''Generating video... ('' @ show_nat (attempts * 3) @ ''s)'') @ [Sleep 3000]))"

text \<open>
  The \<^verbatim>\<open>while (true)\<close> loop with its \<^verbatim>\<open>catch\<close>: an error whose message is
  \<^verbatim>\<open>Video generation failed\<close> is thrown on, any other is followed by a sleep and the
  next attempt. The loop is run against the replies its status requests will meet;
  when they run out it is still waiting (\<open>None\<close>).
\<close>

fun waitForVideoWithHistory_loop ::
  "string option \<Rightarrow> nat \<Rightarrow> status_data option fetched list \<Rightarrow> history \<Rightarrow>
     string option settled \<times> history \<times> event list" where
  "waitForVideoWithHistory_loop vid attempts [] h = (None, h, [])"
| "waitForVideoWithHistory_loop vid attempts (r # rs) h =
     (case poll_once vid attempts r h of
        (Inr (Some url), h', evs) \<Rightarrow> (Some (Inr url), h', evs)
      | (Inr None, h', evs) \<Rightarrow>
          (case waitForVideoWithHistory_loop vid (attempts + 1) rs h' of
             (res, h'', evs') \<Rightarrow> (res, h'', evs @ evs'))
      | (Inl error, h', evs) \<Rightarrow>
          if message error = failed_message then (Some (Inl error), h', evs)
          else (case waitForVideoWithHistory_loop vid (attempts + 1) rs h' of
                  (res, h'', evs') \<Rightarrow> (res, h'', evs @ [Sleep 3000] @ evs')))"

definition waitForVideoWithHistory ::
  "string option \<Rightarrow> status_data option fetched list \<Rightarrow> history \<Rightarrow>
     string option settled \<times> history \<times> event list" where
  "waitForVideoWithHistory vid replies h = waitForVideoWithHistory_loop vid 0 replies h"

definition null_type_error :: js_error where
  "null_type_error = TypeError ''Cannot read properties of null (reading 'type')''"

definition history_entry ::
  "env \<Rightarrow> voice_selection \<Rightarrow> string option \<Rightarrow> string \<Rightarrow> string option \<Rightarrow> videoData" where
  "history_entry w voiceSelection vid avName tscript =
     \<lparr>videoId' = vid,
      videoUrl' = None,
      status' = Some ''processing'',
      avatarId' = or_str (map_option avatar_id (selectedAvatar w))
                         (map_option heygenId (selectedCharacter w)),
      avatarName' = Some avName,
      voiceType' = Some (selection_type voiceSelection),
      voiceName' = (case voiceSelection of
                      preset v \<Rightarrow> voice_name v
                    | custom \<Rightarrow> Some ''Custom Voice''),
      transcript' = tscript,
      duration' = None,
      thumbnailUrl' = None\<rparr>"

text \<open>
  Steps 3 to 5 of \<^verbatim>\<open>generateVideo\<close>, after the voice configuration: submit the render,
  save it to the history, wait for it, display it.
\<close>

definition submit_and_wait ::
  "env \<Rightarrow> voice_selection \<Rightarrow> string option \<Rightarrow> voice_config \<Rightarrow> history \<Rightarrow>
     unit settled \<times> history \<times> event list" where
  "submit_and_wait w voiceSelection tscript voiceConfig h =
     (case character_step (selectedAvatar w) (selectedCharacter w) of
        (characterConfig, avName) \<Rightarrow>
          (case createVideo \<lparr>cfg_character = characterConfig, cfg_voice = voiceConfig,
                             cfg_text = tscript\<rparr> (create_reply w) of
             (Inl e, evs) \<Rightarrow> (Some (Inl e), h, showGenerating @ evs)
           | (Inr vid, evs) \<Rightarrow>
               (let entry = history_entry w voiceSelection vid avName tscript in
                case addVideo entry (clock w) h of
                  (Inl e, h1) \<Rightarrow>
                    (Some (Inl e), h1, showGenerating @ evs @ [AddVideo entry (Inl e)])
                | (Inr k, h1) \<Rightarrow>
                    (case waitForVideoWithHistory vid (status_replies w) h1 of
                       (None, h2, evs') \<Rightarrow>
                         (None, h2, showGenerating @ evs @ [AddVideo entry (Inr k)] @ evs')
                     | (Some (Inl e), h2, evs') \<Rightarrow>
                         (Some (Inl e), h2,
                          showGenerating @ evs @ [AddVideo entry (Inr k)] @ evs')
                     | (Some (Inr url), h2, evs') \<Rightarrow>
                         (Some (Inr ()), h2,
                          showGenerating @ evs @ [AddVideo entry (Inr k)] @ evs' @
                          [DisplayVideo url vid] @ showComplete)))))"

text \<open>The \<^verbatim>\<open>try\<close> block of \<^verbatim>\<open>generateVideo\<close>.\<close>

definition generateVideo_try :: "env \<Rightarrow> history \<Rightarrow> unit settled \<times> history \<times> event list" where
  "generateVideo_try w h =
     (let validation = validate w in
      if \<not> valid validation then (Some (Inr ()), h, [Alert (validation_message validation)])
      else
        (case getSelectedVoice (voiceSelector w) of
           None \<Rightarrow> (Some (Inl null_type_error), h, show ''Starting...'')
         | Some voiceSelection \<Rightarrow>
             (case voice_step w voiceSelection of
                (Inl e, evs) \<Rightarrow> (Some (Inl e), h, show ''Starting...'' @ evs)
              | (Inr (tscript, voiceConfig), evs) \<Rightarrow>
                  (case submit_and_wait w voiceSelection tscript voiceConfig h of
                     (res, h', evs') \<Rightarrow> (res, h', show ''Starting...'' @ evs @ evs')))))"

text \<open>
  \<^verbatim>\<open>generateVideo\<close>: the \<^verbatim>\<open>try\<close> block under its \<^verbatim>\<open>catch\<close>, which shows
  \<^verbatim>\<open>error.message || 'Failed to generate video'\<close> on the loading modal. The result is how
  the promise of \<^verbatim>\<open>generateVideo\<close> settles, the history store it leaves and the
  effects in their order.
\<close>

definition generateVideo :: "env \<Rightarrow> history \<Rightarrow> unit settled \<times> history \<times> event list" where
  "generateVideo w h =
     (case generateVideo_try w h of
        (Some (Inl error), h', evs) \<Rightarrow>
          (Some (Inr ()), h',
           evs @ showError (or_default (Some (message error)) ''Failed to generate video''))
      | (res, h', evs) \<Rightarrow> (res, h', evs))"

section \<open>Notions the properties are stated with\<close>

text \<open>
  A reply whose error the browser words itself is \<open>ordinary\<close> when that wording is not
  the one message the loop of \<^verbatim>\<open>waitForVideoWithHistory\<close> tells a failed render by.
\<close>

fun ordinary :: "'a fetched \<Rightarrow> bool" where
  "ordinary (NetworkFailure m) = (m \<noteq> failed_message)"
| "ordinary (InvalidJson m) = (m \<noteq> failed_message)"
| "ordinary (HttpFailure c t b) = True"
| "ordinary NullBody = True"
| "ordinary (HttpSuccess d) = True"

text \<open>The terminal statuses of a render, and the first reply among some that carries one.\<close>

definition terminal :: "status_data \<Rightarrow> bool" where
  "terminal st = (remote_status st = ''completed'' \<or> remote_status st = ''failed'')"

fun first_terminal :: "status_data option fetched list \<Rightarrow> status_data option" where
  "first_terminal [] = None"
| "first_terminal (HttpSuccess (Some st) # rs) = (if terminal st then Some st else first_terminal rs)"
| "first_terminal (r # rs) = first_terminal rs"

text \<open>What a terminal status makes of the wait: the video URL, or the failure.\<close>

fun verdict :: "status_data option \<Rightarrow> string option settled" where
  "verdict None = None"
| "verdict (Some st) =
     (if remote_status st = ''completed'' then Some (Inr (video_url st))
      else Some (Inl (Error failed_message)))"

text \<open>A reply that reports a status which is not terminal.\<close>

fun in_progress :: "status_data option fetched \<Rightarrow> bool" where
  "in_progress (HttpSuccess (Some st)) = (\<not> terminal st)"
| "in_progress r = False"

text \<open>The store is open and holds a record under the given remote video id.\<close>

definition can_update :: "string option \<Rightarrow> history \<Rightarrow> bool" where
  "can_update vid h =
     (case (vid, h) of (Some k, Some s) \<Rightarrow> index_get k s \<noteq> None | _ \<Rightarrow> False)"

text \<open>The effects the poll loop may have for a video id, and those of the voice step.\<close>

fun loop_event :: "string option \<Rightarrow> event \<Rightarrow> bool" where
  "loop_event vid (FetchVideoStatus v) = (v = vid)"
| "loop_event vid (UpdateVideo v u r) = (v = vid)"
| "loop_event vid (Sleep n) = True"
| "loop_event vid (ModalShow m) = True"
| "loop_event vid e = False"

fun voice_event :: "event \<Rightarrow> bool" where
  "voice_event (GetTranscript b) = True"
| "voice_event (ConvertAudio b) = True"
| "voice_event (FetchUploadAsset t b) = True"
| "voice_event (ModalShow m) = True"
| "voice_event (ModalStatus m) = True"
| "voice_event e = False"

text \<open>What the \<^verbatim>\<open>catch\<close> of \<^verbatim>\<open>generateVideo\<close> shows for a thrown error.\<close>

definition shown_error :: "js_error \<Rightarrow> event list" where
  "shown_error e = showError (or_default (Some (message e)) ''Failed to generate video'')"

text \<open>
  The configuration \<^verbatim>\<open>generateVideo\<close> hands to \<^verbatim>\<open>createVideo\<close> and the entry it hands
  to \<^verbatim>\<open>addVideo\<close>, by the transcript, the voice configuration and the id returned.
\<close>

definition render_config :: "env \<Rightarrow> string option \<Rightarrow> voice_config \<Rightarrow> video_config" where
  "render_config w t vc =
     \<lparr>cfg_character = fst (character_step (selectedAvatar w) (selectedCharacter w)),
      cfg_voice = vc, cfg_text = t\<rparr>"

definition the_entry :: "env \<Rightarrow> voice_selection \<Rightarrow> string option \<Rightarrow> string option \<Rightarrow> videoData" where
  "the_entry w sel vid t =
     history_entry w sel vid (snd (character_step (selectedAvatar w) (selectedCharacter w))) t"

section \<open>Example inputs\<close>

definition empty_store :: object_store where
  "empty_store = \<lparr>records = [], keygen = 1\<rparr>"

definition first_entry :: videoData where
  "first_entry =
     \<lparr>videoId' = Some ''vid1'', videoUrl' = None, status' = Some ''processing'',
      avatarId' = Some ''av1'', avatarName' = Some ''Anna'', voiceType' = Some ''preset'',
      voiceName' = Some ''Voice'', transcript' = Some ''hello'', duration' = None,
      thumbnailUrl' = None\<rparr>"

definition second_entry :: videoData where
  "second_entry =
     \<lparr>videoId' = Some ''vid1'', videoUrl' = Some ''https://v/other.mp4'',
      status' = Some ''completed'', avatarId' = None, avatarName' = None,
      voiceType' = Some ''custom'', voiceName' = Some ''Custom Voice'', transcript' = None,
      duration' = Some 3, thumbnailUrl' = None\<rparr>"

definition job_record :: video where
  "job_record = new_video first_entry ''2024-01-01T00:00:00.000Z'' 1"

definition job_store :: object_store where
  "job_store = \<lparr>records = [job_record], keygen = 2\<rparr>"

text \<open>A store whose one record was saved without a remote video id.\<close>

definition orphan_store :: object_store where
  "orphan_store =
     \<lparr>records = [new_video (first_entry\<lparr>videoId' := None\<rparr>) ''2024-01-01T00:00:00.000Z'' 1],
      keygen = 2\<rparr>"

definition processing_status :: status_data where
  "processing_status =
     \<lparr>remote_status = ''processing'', video_url = None, thumbnail_url = None,
      remote_duration = None\<rparr>"

definition completed_status :: status_data where
  "completed_status =
     \<lparr>remote_status = ''completed'', video_url = Some ''https://v/1.mp4'',
      thumbnail_url = Some ''https://v/1.jpg'', remote_duration = Some (25 / 2)\<rparr>"

definition failed_status :: status_data where
  "failed_status =
     \<lparr>remote_status = ''failed'', video_url = None, thumbnail_url = None,
      remote_duration = None\<rparr>"

definition anna :: avatar where
  "anna = \<lparr>avatar_id = ''av1'', avatar_style = None, avatar_name = Some ''Anna''\<rparr>"

definition my_character :: character where
  "my_character = \<lparr>heygenId = ''ph1'', name = Some ''Me''\<rparr>"

text \<open>
  A run with a preset voice and both an avatar and a custom character selected; the render
  is accepted as \<^verbatim>\<open>vid1\<close> and fails after one transport error and one
  \<^verbatim>\<open>processing\<close> reply.
\<close>

definition studio :: env where
  "studio =
     \<lparr>audioBlob = Some (Blob ''audio/webm'' ''abc''),
      selectedAvatar = Some anna,
      selectedCharacter = Some my_character,
      voiceSelector =
        \<lparr>selectedVoice = Some \<lparr>voice_id = ''v1'', voice_name = Some ''Voice''\<rparr>,
         useCustomVoice = False\<rparr>,
      transcription = Inr (Some ''hello''),
      conversion = Some (Blob ''audio/wav'' ''RIFF''),
      upload_reply = NetworkFailure ''Load failed'',
      create_reply = HttpSuccess (Some ''vid1''),
      clock = ''2024-01-01T00:00:00.000Z'',
      status_replies =
        [NetworkFailure ''Failed to fetch'', HttpSuccess (Some processing_status),
         HttpSuccess (Some failed_status)]\<rparr>"

text \<open>
  The same with the recorded voice: the upload is rejected by \<^verbatim>\<open>fetch\<close>, with the
  message of Safari (\<^verbatim>\<open>Load failed\<close>) and with the one of Chromium
  (\<^verbatim>\<open>Failed to fetch\<close>).
\<close>

definition safari_studio :: env where
  "safari_studio = studio\<lparr>voiceSelector := \<lparr>selectedVoice = None, useCustomVoice = True\<rparr>\<rparr>"

definition chromium_studio :: env where
  "chromium_studio = safari_studio\<lparr>upload_reply := NetworkFailure ''Failed to fetch''\<rparr>"

text \<open>The same with nothing recorded.\<close>

definition silent_studio :: env where
  "silent_studio = studio\<lparr>audioBlob := None\<rparr>"


definition orphan_studio :: env where
  "orphan_studio =
     studio\<lparr>create_reply := HttpSuccess None,
            status_replies := [HttpSuccess (Some failed_status)]\<rparr>"

section \<open>Properties of the history store\<close>

lemma find_append_case:
  "find P (xs @ ys) = (case find P xs of Some x \<Rightarrow> Some x | None \<Rightarrow> find P ys)"
  by (induction xs) auto

lemma index_get_None_filter:
  "index_get k s = None \<Longrightarrow> filter (\<lambda>v. videoId v = Some k) (records s) = []"
  by (auto simp: index_get_def find_None_iff filter_empty_conv)

lemma addVideo_Inr:
  assumes "addVideo d now h = (Inr k, h')"
  shows "\<exists>s. h = Some s \<and> k = keygen s \<and> \<not> violates_unique (new_video d now k) s \<and>
             h' = Some (s\<lparr>records := records s @ [new_video d now k],
                          keygen := keygen s + 1\<rparr>)"
  using assms
  by (auto simp: addVideo_def Let_def new_video_def split: option.splits if_splits)

lemma with_videoId_put_new:
  assumes "\<not> violates_unique v s" "videoId v = Some k" "key v' = key v" "videoId v' = Some k"
  shows "with_videoId k (Some (put v' (s\<lparr>records := records s @ [v], keygen := n\<rparr>))) = [v']"
proof -
  from assms(1,2) have keys: "\<forall>x\<in>set (records s). key x \<noteq> key v"
    and "index_get k s = None"
    by (auto simp: violates_unique_def list_ex_iff)
  then have ids: "\<forall>x\<in>set (records s). videoId x \<noteq> Some k"
    by (auto simp: index_get_def find_None_iff)
  from keys assms(3) have "map (\<lambda>x. if key x = key v' then v' else x) (records s) = records s"
    by (intro map_idI) auto
  with ids assms(3,4) show ?thesis
    by (simp add: with_videoId_def put_def filter_empty_conv)
qed




text \<open>
  C6. Two \<^verbatim>\<open>addVideo\<close> calls with the same remote video id on an opened store: the
  second one is rejected with the ConstraintError of the unique \<^verbatim>\<open>videoId\<close> index and
  leaves the store exactly as the first call left it. When the first call succeeded,
  the only record the store holds for that id is the one the first call wrote; when
  it did not, the store is as it was before both calls.
\<close>

theorem addVideo_same_videoId:
  assumes ids: "videoId' d1 = Some k" "videoId' d2 = Some k"
    and first: "addVideo d1 t1 (Some s) = (r1, h1)"
    and second: "addVideo d2 t2 h1 = (r2, h2)"
  shows "r2 = Inl ConstraintError \<and> h2 = h1 \<and>
         (case r1 of
            Inr k1 \<Rightarrow> with_videoId k h2 = [new_video d1 t1 k1]
          | Inl e \<Rightarrow> h2 = Some s)"
proof (cases "violates_unique (new_video d1 t1 (keygen s)) s")
  case True
  with first have h1: "h1 = Some s" and r1: "r1 = Inl ConstraintError"
    by (auto simp: addVideo_def Let_def)
  from True ids have "violates_unique (new_video d2 t2 (keygen s)) s"
    by (simp add: violates_unique_def new_video_def)
  with second h1 have "r2 = Inl ConstraintError" "h2 = h1"
    by (auto simp: addVideo_def Let_def)
  with h1 r1 show ?thesis by simp
next
  case False
  define v where "v = new_video d1 t1 (keygen s)"
  define s1 where "s1 = s\<lparr>records := records s @ [v], keygen := keygen s + 1\<rparr>"
  from False first have h1: "h1 = Some s1" and r1: "r1 = Inr (keygen s)"
    by (auto simp: addVideo_def Let_def s1_def v_def new_video_def)
  have vid: "videoId v = Some k"
    using ids by (simp add: v_def new_video_def)
  have "index_get k s1 \<noteq> None"
    using vid by (simp add: s1_def index_get_def find_append_case split: option.splits)
  then have "violates_unique (new_video d2 t2 (keygen s1)) s1"
    using ids by (simp add: violates_unique_def new_video_def)
  with second h1 have r2: "r2 = Inl ConstraintError" and h2: "h2 = h1"
    by (auto simp: addVideo_def Let_def)
  from False vid have "index_get k s = None"
    by (simp add: violates_unique_def v_def)
  then have "filter (\<lambda>v. videoId v = Some k) (records s) = []"
    by (rule index_get_None_filter)
  then have "with_videoId k h2 = [v]"
    using vid by (simp add: h2 h1 with_videoId_def s1_def)
  with r2 h2 r1 show ?thesis by (simp add: v_def)
qed

theorem addVideo_same_videoId_witness:
  "fst (addVideo second_entry ''2024-01-02'' (snd (addVideo first_entry ''2024-01-01'' (init None))))
     = Inl ConstraintError \<and>
   snd (addVideo second_entry ''2024-01-02'' (snd (addVideo first_entry ''2024-01-01'' (init None))))
     = snd (addVideo first_entry ''2024-01-01'' (init None)) \<and>
   fst (addVideo first_entry ''2024-01-01'' (init None)) = Inr 1 \<and>
   with_videoId ''vid1''
     (snd (addVideo second_entry ''2024-01-02'' (snd (addVideo first_entry ''2024-01-01'' (init None)))))
     = [new_video first_entry ''2024-01-01'' 1]"
proof -
  have ids: "videoId' first_entry = Some ''vid1''" "videoId' second_entry = Some ''vid1''"
    by (simp_all add: first_entry_def second_entry_def)
  have first: "addVideo first_entry ''2024-01-01'' (Some empty_store) =
      (fst (addVideo first_entry ''2024-01-01'' (init None)),
       snd (addVideo first_entry ''2024-01-01'' (init None)))"
    by (simp add: init_def empty_store_def)
  have second: "addVideo second_entry ''2024-01-02''
        (snd (addVideo first_entry ''2024-01-01'' (init None))) =
      (fst (addVideo second_entry ''2024-01-02''
              (snd (addVideo first_entry ''2024-01-01'' (init None)))),
       snd (addVideo second_entry ''2024-01-02''
              (snd (addVideo first_entry ''2024-01-01'' (init None)))))"
    by simp
  have r1: "fst (addVideo first_entry ''2024-01-01'' (init None)) = Inr 1"
    by (simp add: addVideo_def init_def Let_def violates_unique_def new_video_def
        index_get_def first_entry_def)
  from addVideo_same_videoId [OF ids first second] r1 show ?thesis
    by auto
qed

section \<open>Properties of the poll loop\<close>

lemma poll_once_NetworkFailure:
  "poll_once vid n (NetworkFailure m) h = (Inl (TypeError m), h, [FetchVideoStatus vid])"
  by (simp add: poll_once_def getVideoStatus_def)

lemma poll_once_HttpFailure:
  "poll_once vid n (HttpFailure c t b) h =
     (Inl (Error (''Failed to get video status: '' @ t)), h, [FetchVideoStatus vid])"
  by (simp add: poll_once_def getVideoStatus_def)

lemma poll_once_InvalidJson:
  "poll_once vid n (InvalidJson m) h = (Inl (SyntaxError m), h, [FetchVideoStatus vid])"
  by (simp add: poll_once_def getVideoStatus_def)

lemma poll_once_NullBody:
  "poll_once vid n NullBody h = (Inl null_data_error, h, [FetchVideoStatus vid])"
  by (simp add: poll_once_def getVideoStatus_def)

lemma null_data_not_failed: "message null_data_error \<noteq> failed_message"
  by (simp add: null_data_error_def failed_message_def)

lemma poll_once_undefined:
  "poll_once vid n (HttpSuccess None) h = (Inl undefined_status_error, h, [FetchVideoStatus vid])"
  by (simp add: poll_once_def getVideoStatus_def)

lemma poll_once_in_progress:
  "\<not> terminal st \<Longrightarrow>
   poll_once vid n (HttpSuccess (Some st)) h =
     (Inr None, h,
      [FetchVideoStatus vid, ModalShow (''Generating video... ('' @ show_nat (n * 3) @ ''s)''),
       Sleep 3000])"
  by (simp add: poll_once_def getVideoStatus_def terminal_def show_def)

lemma poll_once_completed:
  "remote_status st = ''completed'' \<Longrightarrow>
   poll_once vid n (HttpSuccess (Some st)) h =
     (let updates = [Set_status ''completed'', Set_videoUrl (video_url st),
                     Set_thumbnailUrl (thumbnail_url st), Set_duration (remote_duration st)]
      in case updateVideo vid updates h of
           (Inl e, h') \<Rightarrow> (Inl e, h', [FetchVideoStatus vid, UpdateVideo vid updates (Inl e)])
         | (Inr u, h') \<Rightarrow>
             (Inr (Some (video_url st)), h', [FetchVideoStatus vid, UpdateVideo vid updates (Inr u)]))"
  by (simp add: poll_once_def getVideoStatus_def Let_def split: prod.splits sum.splits)

lemma poll_once_failed:
  "remote_status st = ''failed'' \<Longrightarrow>
   poll_once vid n (HttpSuccess (Some st)) h =
     (case updateVideo vid [Set_status ''failed''] h of
        (Inl e, h') \<Rightarrow>
          (Inl e, h', [FetchVideoStatus vid, UpdateVideo vid [Set_status ''failed''] (Inl e)])
      | (Inr u, h') \<Rightarrow>
          (Inl (Error failed_message), h',
           [FetchVideoStatus vid, UpdateVideo vid [Set_status ''failed''] (Inr u)]))"
  by (simp add: poll_once_def getVideoStatus_def Let_def split: prod.splits sum.splits)

lemma updateVideo_found:
  "index_get k s = Some v \<Longrightarrow>
   updateVideo (Some k) us (Some s) = (Inr (), Some (put (foldl assign v us) s))"
  by (simp add: updateVideo_def)

lemma updateVideo_error_message:
  "updateVideo vid us h = (Inl e, h') \<Longrightarrow> message e \<noteq> failed_message \<and> h' = h"
  by (auto simp: updateVideo_def db_null_error_def DataError_def failed_message_def
      split: option.splits)

lemma undefined_status_not_failed: "message undefined_status_error \<noteq> failed_message"
  by (simp add: undefined_status_error_def failed_message_def)

lemma loop_verdict:
  assumes "list_all ordinary rs" "index_get k s = Some v"
  shows "fst (waitForVideoWithHistory_loop (Some k) n rs (Some s)) = verdict (first_terminal rs)"
  using assms(1)
proof (induction rs arbitrary: n)
  case Nil
  then show ?case by simp
next
  case (Cons r rs)
  then have ord: "ordinary r"
    and IH: "\<And>n. fst (waitForVideoWithHistory_loop (Some k) n rs (Some s)) = verdict (first_terminal rs)"
    by simp_all
  show ?case
  proof (cases r)
    case (NetworkFailure m)
    with ord IH [of "n + 1"] show ?thesis
      by (auto simp: poll_once_NetworkFailure split: prod.splits)
  next
    case (HttpFailure c t b)
    with IH [of "n + 1"] show ?thesis
      by (auto simp: poll_once_HttpFailure failed_message_def split: prod.splits)
  next
    case (InvalidJson m)
    with ord IH [of "n + 1"] show ?thesis
      by (auto simp: poll_once_InvalidJson split: prod.splits)
  next
    case NullBody
    with ord IH [of "n + 1"] show ?thesis
      by (auto simp: poll_once_NullBody null_data_not_failed split: prod.splits)
  next
    case (HttpSuccess d)
    show ?thesis
    proof (cases d)
      case None
      with HttpSuccess IH [of "n + 1"] show ?thesis
        by (auto simp: poll_once_undefined undefined_status_not_failed split: prod.splits)
    next
      case (Some st)
      consider (c) "remote_status st = ''completed''" | (f) "remote_status st = ''failed''"
        | (p) "\<not> terminal st"
        by (auto simp: terminal_def)
      then show ?thesis
      proof cases
        case c
        with HttpSuccess Some assms(2) show ?thesis
          by (simp add: poll_once_completed updateVideo_found terminal_def)
      next
        case f
        with HttpSuccess Some assms(2) show ?thesis
          by (simp add: poll_once_failed updateVideo_found terminal_def)
      next
        case p
        with HttpSuccess Some IH [of "n + 1"] show ?thesis
          by (auto simp: poll_once_in_progress split: prod.splits)
      qed
    qed
  qed
qed

lemma updateVideo_cannot:
  "\<not> can_update vid h \<Longrightarrow> \<exists>e. updateVideo vid us h = (Inl e, h) \<and> message e \<noteq> failed_message"
  by (auto simp: can_update_def updateVideo_def db_null_error_def DataError_def failed_message_def
      split: option.splits)

lemma loop_never_settles:
  assumes "list_all ordinary rs" "\<not> can_update vid h"
  shows "fst (waitForVideoWithHistory_loop vid n rs h) = None"
  using assms(1)
proof (induction rs arbitrary: n)
  case Nil
  then show ?case by simp
next
  case (Cons r rs)
  then have ord: "ordinary r"
    and IH: "\<And>n. fst (waitForVideoWithHistory_loop vid n rs h) = None"
    by simp_all
  show ?case
  proof (cases r)
    case (NetworkFailure m)
    with ord IH [of "n + 1"] show ?thesis
      by (auto simp: poll_once_NetworkFailure split: prod.splits)
  next
    case (HttpFailure c t b)
    with IH [of "n + 1"] show ?thesis
      by (auto simp: poll_once_HttpFailure failed_message_def split: prod.splits)
  next
    case (InvalidJson m)
    with ord IH [of "n + 1"] show ?thesis
      by (auto simp: poll_once_InvalidJson split: prod.splits)
  next
    case NullBody
    with ord IH [of "n + 1"] show ?thesis
      by (auto simp: poll_once_NullBody null_data_not_failed split: prod.splits)
  next
    case (HttpSuccess d)
    show ?thesis
    proof (cases d)
      case None
      with HttpSuccess IH [of "n + 1"] show ?thesis
        by (auto simp: poll_once_undefined undefined_status_not_failed split: prod.splits)
    next
      case (Some st)
      consider (c) "remote_status st = ''completed''" | (f) "remote_status st = ''failed''"
        | (p) "\<not> terminal st"
        by (auto simp: terminal_def)
      then show ?thesis
      proof cases
        case c
        from updateVideo_cannot [OF assms(2)]
        obtain e where "updateVideo vid [Set_status ''completed'', Set_videoUrl (video_url st),
                     Set_thumbnailUrl (thumbnail_url st), Set_duration (remote_duration st)] h = (Inl e, h)"
          "message e \<noteq> failed_message" by blast
        with c HttpSuccess Some IH [of "n + 1"] show ?thesis
          by (auto simp: poll_once_completed split: prod.splits)
      next
        case f
        from updateVideo_cannot [OF assms(2)]
        obtain e where "updateVideo vid [Set_status ''failed''] h = (Inl e, h)"
          "message e \<noteq> failed_message" by blast
        with f HttpSuccess Some IH [of "n + 1"] show ?thesis
          by (auto simp: poll_once_failed split: prod.splits)
      next
        case p
        with HttpSuccess Some IH [of "n + 1"] show ?thesis
          by (auto simp: poll_once_in_progress split: prod.splits)
      qed
    qed
  qed
qed



text \<open>
  Against replies in which no browser-worded error reads \<^verbatim>\<open>Video generation failed\<close>,
  the loop of \<^verbatim>\<open>waitForVideoWithHistory\<close> either is still polling when the replies run
  out, or has ended with the verdict of the first reply that carries a terminal status.
  It ends there whenever the opened store holds the job's record.
\<close>

lemma poll_loop_verdict:
  assumes "list_all ordinary rs"
  shows "(fst (waitForVideoWithHistory vid rs h) = None \<or>
          fst (waitForVideoWithHistory vid rs h) = verdict (first_terminal rs)) \<and>
         (can_update vid h \<longrightarrow>
            fst (waitForVideoWithHistory vid rs h) = verdict (first_terminal rs))"
proof (cases "can_update vid h")
  case True
  then obtain k s v where "vid = Some k" "h = Some s" "index_get k s = Some v"
    by (auto simp: can_update_def split: option.splits)
  with loop_verdict [OF assms, of k s v 0] show ?thesis
    by (simp add: waitForVideoWithHistory_def)
next
  case False
  with loop_never_settles [OF assms False, of 0] show ?thesis
    by (simp add: waitForVideoWithHistory_def)
qed

text \<open>
  C3 does not hold of the code. When \<^verbatim>\<open>updateVideo\<close> rejects, because the store holds no
  record under the job's id or because the id is undefined, the \<^verbatim>\<open>catch\<close> of the loop
  takes the rejection for a network error: a \<^verbatim>\<open>failed\<close> or \<^verbatim>\<open>completed\<close> status is
  followed by a sleep and the next status request, like a transport error, and the loop
  does not end.
\<close>

theorem terminal_status_swallowed:
  "waitForVideoWithHistory None
     [HttpSuccess (Some failed_status), HttpSuccess (Some completed_status)] (Some orphan_store) =
   (None, Some orphan_store,
    [FetchVideoStatus None,
     UpdateVideo None [Set_status ''failed''] (Inl DataError),
     Sleep 3000,
     FetchVideoStatus None,
     UpdateVideo None
       [Set_status ''completed'', Set_videoUrl (Some ''https://v/1.mp4''),
        Set_thumbnailUrl (Some ''https://v/1.jpg''), Set_duration (Some (25 / 2))]
       (Inl DataError),
     Sleep 3000]) \<and>
   waitForVideoWithHistory (Some ''vid1'')
     [HttpSuccess (Some failed_status), HttpSuccess (Some completed_status)] (Some empty_store) =
   (None, Some empty_store,
    [FetchVideoStatus (Some ''vid1''),
     UpdateVideo (Some ''vid1'') [Set_status ''failed''] (Inl (Error ''Video not found'')),
     Sleep 3000,
     FetchVideoStatus (Some ''vid1''),
     UpdateVideo (Some ''vid1'')
       [Set_status ''completed'', Set_videoUrl (Some ''https://v/1.mp4''),
        Set_thumbnailUrl (Some ''https://v/1.jpg''), Set_duration (Some (25 / 2))]
       (Inl (Error ''Video not found'')),
     Sleep 3000])"
  by code_simp

section \<open>Properties of the bounded wait\<close>

lemma getVideoStatus_in_progress:
  "in_progress r \<Longrightarrow> \<exists>st. r = HttpSuccess (Some st) \<and> \<not> terminal st"
  by (cases r rule: in_progress.cases) auto

lemma waitForVideo_loop_polls:
  "length (filter is_poll (snd (waitForVideo_loop vid n rs))) \<le> MAX_POLL_ATTEMPTS - n"
proof (induction rs arbitrary: n)
  case Nil
  then show ?case by simp
next
  case (Cons r rs)
  show ?case
  proof (cases "n < MAX_POLL_ATTEMPTS")
    case False
    then show ?thesis by simp
  next
    case True
    with Cons [of "n + 1"] show ?thesis
      by (auto simp: getVideoStatus_def split: prod.splits sum.splits option.splits fetched.splits)
  qed
qed

lemma waitForVideo_loop_timeout:
  assumes "list_all in_progress (take (MAX_POLL_ATTEMPTS - n) rs)" "MAX_POLL_ATTEMPTS - n \<le> length rs"
  shows "waitForVideo_loop vid n rs =
           (Some (Inl (Error ''Video generation timeout'')),
            concat (replicate (MAX_POLL_ATTEMPTS - n) [FetchVideoStatus vid, Sleep POLL_INTERVAL]))"
  using assms
proof (induction rs arbitrary: n)
  case Nil
  then show ?case by simp
next
  case (Cons r rs)
  show ?case
  proof (cases "n < MAX_POLL_ATTEMPTS")
    case False
    then show ?thesis by simp
  next
    case True
    then have step: "MAX_POLL_ATTEMPTS - n = Suc (MAX_POLL_ATTEMPTS - (n + 1))"
      by simp
    with Cons.prems have "in_progress r"
      and rest: "list_all in_progress (take (MAX_POLL_ATTEMPTS - (n + 1)) rs)"
        "MAX_POLL_ATTEMPTS - (n + 1) \<le> length rs"
      by simp_all
    then obtain st where r: "r = HttpSuccess (Some st)" "\<not> terminal st"
      by (auto dest: getVideoStatus_in_progress)
    from Cons.IH [OF rest] True r step show ?thesis
      by (simp add: getVideoStatus_def terminal_def)
  qed
qed

lemma waitForVideo_loop_within:
  assumes "list_all in_progress pre" "n + length pre < MAX_POLL_ATTEMPTS" "terminal st"
  shows "fst (waitForVideo_loop vid n (pre @ HttpSuccess (Some st) # post)) = verdict (Some st)"
  using assms(1,2)
proof (induction pre arbitrary: n)
  case Nil
  with assms(3) show ?case
    by (auto simp: getVideoStatus_def terminal_def failed_message_def)
next
  case (Cons r pre)
  then have "in_progress r" and rest: "list_all in_progress pre" "(n + 1) + length pre < MAX_POLL_ATTEMPTS"
    and n: "n < MAX_POLL_ATTEMPTS"
    by simp_all
  then obtain st' where r: "r = HttpSuccess (Some st')" "\<not> terminal st'"
    by (auto dest: getVideoStatus_in_progress)
  from Cons.IH [OF rest] r n show ?case
    by (auto simp: getVideoStatus_def terminal_def split: prod.splits)
qed

lemma loop_in_progress:
  assumes "list_all in_progress rs"
  shows "fst (waitForVideoWithHistory_loop vid n rs h) = None \<and>
         length (filter is_poll (snd (snd (waitForVideoWithHistory_loop vid n rs h)))) = length rs"
  using assms
proof (induction rs arbitrary: n)
  case Nil
  then show ?case by simp
next
  case (Cons r rs)
  then have "in_progress r" and rest: "list_all in_progress rs"
    by simp_all
  then obtain st where r: "r = HttpSuccess (Some st)" "\<not> terminal st"
    by (auto dest: getVideoStatus_in_progress)
  from Cons.IH [OF rest, of "n + 1"] r show ?case
    by (auto simp: poll_once_in_progress split: prod.splits)
qed

lemma loop_error_is_failure:
  "fst (waitForVideoWithHistory_loop vid n rs h) = Some (Inl e) \<Longrightarrow> message e = failed_message"
proof (induction rs arbitrary: n h)
  case Nil
  then show ?case by simp
next
  case (Cons r rs)
  obtain res h' evs where p: "poll_once vid n r h = (res, h', evs)"
    by (cases "poll_once vid n r h") auto
  with Cons.prems Cons.IH [of "n + 1" h'] show ?case
    by (auto split: sum.splits option.splits if_splits prod.splits)
qed

lemma waitForVideo_loop_throws:
  assumes "list_all in_progress pre" "n + length pre < MAX_POLL_ATTEMPTS"
    "fst (getVideoStatus vid r) = Inl e"
  shows "waitForVideo_loop vid n (pre @ r # post) =
           (Some (Inl e),
            concat (replicate (length pre) [FetchVideoStatus vid, Sleep POLL_INTERVAL]) @
            [FetchVideoStatus vid])"
  using assms(1,2)
proof (induction pre arbitrary: n)
  case Nil
  with assms(3) show ?case
    by (auto simp: getVideoStatus_def split: prod.splits sum.splits)
next
  case (Cons r' pre)
  then have "in_progress r'" and rest: "list_all in_progress pre" "(n + 1) + length pre < MAX_POLL_ATTEMPTS"
    and n: "n < MAX_POLL_ATTEMPTS"
    by simp_all
  then obtain st' where r: "r' = HttpSuccess (Some st')" "\<not> terminal st'"
    by (auto dest: getVideoStatus_in_progress)
  from Cons.IH [OF rest] r n show ?case
    by (auto simp: getVideoStatus_def terminal_def split: prod.splits)
qed

lemma waitForVideo_loop_undefined:
  assumes "list_all in_progress pre" "n + length pre < MAX_POLL_ATTEMPTS"
  shows "fst (waitForVideo_loop vid n (pre @ HttpSuccess None # post)) =
           Some (Inl undefined_status_error)"
  using assms
proof (induction pre arbitrary: n)
  case Nil
  then show ?case
    by (auto simp: getVideoStatus_def)
next
  case (Cons r' pre)
  then have "in_progress r'" and rest: "list_all in_progress pre" "(n + 1) + length pre < MAX_POLL_ATTEMPTS"
    and n: "n < MAX_POLL_ATTEMPTS"
    by simp_all
  then obtain st' where r: "r' = HttpSuccess (Some st')" "\<not> terminal st'"
    by (auto dest: getVideoStatus_in_progress)
  from Cons.IH [OF rest] r n show ?case
    by (auto simp: getVideoStatus_def terminal_def split: prod.splits)
qed

text \<open>
  C8, as the code has it. \<^verbatim>\<open>waitForVideo\<close> never makes more than
  \<^verbatim>\<open>MAX_POLL_ATTEMPTS\<close> = 200 status requests, \<^verbatim>\<open>POLL_INTERVAL\<close> = 3000 ms apart. When the
  first 200 requests all succeed with a status that is not terminal, it makes exactly 200
  requests and throws \<^verbatim>\<open>Video generation timeout\<close>. After fewer than 200 such replies, a
  \<^verbatim>\<open>completed\<close> status makes it return the video URL, a \<^verbatim>\<open>failed\<close> status makes it throw
  \<^verbatim>\<open>Video generation failed\<close>, and a status request that throws, or that answers without
  status data, ends it at once with that error: nothing is retried. The loop of
  \<^verbatim>\<open>waitForVideoWithHistory\<close> has no ceiling: against any number of non-terminal replies
  it makes as many requests and is still polling, and it never throws the timeout.
\<close>

theorem waitForVideo_bounded:
  "length (filter is_poll (snd (waitForVideo vid rs))) \<le> MAX_POLL_ATTEMPTS \<and>
   MAX_POLL_ATTEMPTS = 200 \<and> POLL_INTERVAL = 3000 \<and>
   (list_all in_progress (take MAX_POLL_ATTEMPTS rs) \<and> MAX_POLL_ATTEMPTS \<le> length rs \<longrightarrow>
      waitForVideo vid rs =
        (Some (Inl (Error ''Video generation timeout'')),
         concat (replicate MAX_POLL_ATTEMPTS [FetchVideoStatus vid, Sleep POLL_INTERVAL]))) \<and>
   (list_all in_progress pre \<and> length pre < MAX_POLL_ATTEMPTS \<and> remote_status st = ''completed'' \<longrightarrow>
      fst (waitForVideo vid (pre @ HttpSuccess (Some st) # post)) = Some (Inr (video_url st))) \<and>
   (list_all in_progress pre \<and> length pre < MAX_POLL_ATTEMPTS \<and> remote_status st = ''failed'' \<longrightarrow>
      fst (waitForVideo vid (pre @ HttpSuccess (Some st) # post)) =
        Some (Inl (Error ''Video generation failed''))) \<and>
   (list_all in_progress pre \<and> length pre < MAX_POLL_ATTEMPTS \<and>
    fst (getVideoStatus vid r) = Inl e \<longrightarrow>
      waitForVideo vid (pre @ r # post) =
        (Some (Inl e),
         concat (replicate (length pre) [FetchVideoStatus vid, Sleep POLL_INTERVAL]) @
         [FetchVideoStatus vid])) \<and>
   (list_all in_progress pre \<and> length pre < MAX_POLL_ATTEMPTS \<longrightarrow>
      fst (waitForVideo vid (pre @ HttpSuccess None # post)) = Some (Inl undefined_status_error)) \<and>
   (list_all in_progress rs \<longrightarrow>
      fst (waitForVideoWithHistory vid rs h) = None \<and>
      length (filter is_poll (snd (snd (waitForVideoWithHistory vid rs h)))) = length rs) \<and>
   fst (waitForVideoWithHistory vid rs h) \<noteq> Some (Inl (Error ''Video generation timeout''))"
proof -
  have a: "length (filter is_poll (snd (waitForVideo vid rs))) \<le> MAX_POLL_ATTEMPTS"
    using waitForVideo_loop_polls [of vid 0 rs] by (simp add: waitForVideo_def)
  have b: "list_all in_progress (take MAX_POLL_ATTEMPTS rs) \<and> MAX_POLL_ATTEMPTS \<le> length rs \<longrightarrow>
      waitForVideo vid rs =
        (Some (Inl (Error ''Video generation timeout'')),
         concat (replicate MAX_POLL_ATTEMPTS [FetchVideoStatus vid, Sleep POLL_INTERVAL]))"
    using waitForVideo_loop_timeout [of 0 rs vid] by (simp add: waitForVideo_def)
  have c: "list_all in_progress pre \<and> length pre < MAX_POLL_ATTEMPTS \<and> remote_status st = ''completed'' \<longrightarrow>
      fst (waitForVideo vid (pre @ HttpSuccess (Some st) # post)) = Some (Inr (video_url st))"
    using waitForVideo_loop_within [of pre 0 st vid post]
    by (simp add: waitForVideo_def terminal_def)
  have d: "list_all in_progress pre \<and> length pre < MAX_POLL_ATTEMPTS \<and> remote_status st = ''failed'' \<longrightarrow>
      fst (waitForVideo vid (pre @ HttpSuccess (Some st) # post)) =
        Some (Inl (Error ''Video generation failed''))"
    using waitForVideo_loop_within [of pre 0 st vid post]
    by (simp add: waitForVideo_def terminal_def failed_message_def)
  have t: "list_all in_progress pre \<and> length pre < MAX_POLL_ATTEMPTS \<and>
    fst (getVideoStatus vid r) = Inl e \<longrightarrow>
      waitForVideo vid (pre @ r # post) =
        (Some (Inl e),
         concat (replicate (length pre) [FetchVideoStatus vid, Sleep POLL_INTERVAL]) @
         [FetchVideoStatus vid])"
    using waitForVideo_loop_throws [of pre 0 vid r e post] by (simp add: waitForVideo_def)
  have u: "list_all in_progress pre \<and> length pre < MAX_POLL_ATTEMPTS \<longrightarrow>
      fst (waitForVideo vid (pre @ HttpSuccess None # post)) = Some (Inl undefined_status_error)"
    using waitForVideo_loop_undefined [of pre 0 vid post] by (simp add: waitForVideo_def)
  have e: "list_all in_progress rs \<longrightarrow>
      fst (waitForVideoWithHistory vid rs h) = None \<and>
      length (filter is_poll (snd (snd (waitForVideoWithHistory vid rs h)))) = length rs"
    using loop_in_progress [of rs vid 0 h] by (simp add: waitForVideoWithHistory_def)
  have f: "fst (waitForVideoWithHistory vid rs h) \<noteq> Some (Inl (Error ''Video generation timeout''))"
    using loop_error_is_failure [of vid 0 rs h "Error ''Video generation timeout''"]
    by (auto simp: waitForVideoWithHistory_def failed_message_def)
  have g: "MAX_POLL_ATTEMPTS = 200" "POLL_INTERVAL = 3000"
    by (simp_all add: MAX_POLL_ATTEMPTS_def POLL_INTERVAL_def)
  from a b c d t u e f g show ?thesis by blast
qed

theorem waitForVideo_bounded_witness:
  "waitForVideo (Some ''vid1'') (replicate 200 (HttpSuccess (Some processing_status))) =
     (Some (Inl (Error ''Video generation timeout'')),
      concat (replicate 200 [FetchVideoStatus (Some ''vid1''), Sleep 3000])) \<and>
   fst (waitForVideo (Some ''vid1'')
          (replicate 199 (HttpSuccess (Some processing_status)) @
           HttpSuccess (Some completed_status) # [])) = Some (Inr (Some ''https://v/1.mp4'')) \<and>
   fst (waitForVideo (Some ''vid1'')
          (replicate 199 (HttpSuccess (Some processing_status)) @
           HttpSuccess (Some failed_status) # [])) = Some (Inl (Error ''Video generation failed'')) \<and>
   waitForVideo (Some ''vid1'')
     ([HttpSuccess (Some processing_status)] @ NetworkFailure ''Failed to fetch'' #
      [HttpSuccess (Some completed_status)]) =
     (Some (Inl (TypeError ''Failed to fetch'')),
      [FetchVideoStatus (Some ''vid1''), Sleep 3000, FetchVideoStatus (Some ''vid1'')]) \<and>
   fst (waitForVideoWithHistory (Some ''vid1'')
          (replicate 1000 (HttpSuccess (Some processing_status))) (Some job_store)) = None"
proof -
  have ip: "in_progress (HttpSuccess (Some processing_status))"
    by (simp add: terminal_def processing_status_def)
  then have all: "list_all in_progress (replicate n (HttpSuccess (Some processing_status)))" for n
    by (simp add: list_all_iff)
  have c: "remote_status completed_status = ''completed''"
    and f: "remote_status failed_status = ''failed''"
    by (simp_all add: completed_status_def failed_status_def)
  have thrown: "fst (getVideoStatus (Some ''vid1'') (NetworkFailure ''Failed to fetch'')) =
      Inl (TypeError ''Failed to fetch'')"
    by (simp add: getVideoStatus_def)
  note th = waitForVideo_bounded [where vid = "Some ''vid1''" and h = "Some job_store"]
  from th [where rs = "replicate 200 (HttpSuccess (Some processing_status))"]
    all [of 200]
  have a: "waitForVideo (Some ''vid1'') (replicate 200 (HttpSuccess (Some processing_status))) =
     (Some (Inl (Error ''Video generation timeout'')),
      concat (replicate 200 [FetchVideoStatus (Some ''vid1''), Sleep 3000]))"
    by (simp add: MAX_POLL_ATTEMPTS_def POLL_INTERVAL_def)
  from th [where pre = "replicate 199 (HttpSuccess (Some processing_status))"
      and st = completed_status and post = "[]"] all [of 199] c
  have b: "fst (waitForVideo (Some ''vid1'')
          (replicate 199 (HttpSuccess (Some processing_status)) @
           HttpSuccess (Some completed_status) # [])) = Some (Inr (Some ''https://v/1.mp4''))"
    by (simp add: MAX_POLL_ATTEMPTS_def completed_status_def)
  from th [where pre = "replicate 199 (HttpSuccess (Some processing_status))"
      and st = failed_status and post = "[]"] all [of 199] f
  have d: "fst (waitForVideo (Some ''vid1'')
          (replicate 199 (HttpSuccess (Some processing_status)) @
           HttpSuccess (Some failed_status) # [])) = Some (Inl (Error ''Video generation failed''))"
    by (simp add: MAX_POLL_ATTEMPTS_def)
  from th [where pre = "[HttpSuccess (Some processing_status)]"
      and r = "NetworkFailure ''Failed to fetch''" and e = "TypeError ''Failed to fetch''"
      and post = "[HttpSuccess (Some completed_status)]"] ip thrown
  have g: "waitForVideo (Some ''vid1'')
     ([HttpSuccess (Some processing_status)] @ NetworkFailure ''Failed to fetch'' #
      [HttpSuccess (Some completed_status)]) =
     (Some (Inl (TypeError ''Failed to fetch'')),
      [FetchVideoStatus (Some ''vid1''), Sleep 3000, FetchVideoStatus (Some ''vid1'')])"
    by (simp add: MAX_POLL_ATTEMPTS_def POLL_INTERVAL_def)
  from th [where rs = "replicate 1000 (HttpSuccess (Some processing_status))"] all [of 1000]
  have e: "fst (waitForVideoWithHistory (Some ''vid1'')
          (replicate 1000 (HttpSuccess (Some processing_status))) (Some job_store)) = None"
    by simp
  from a b d g e show ?thesis by simp
qed

text \<open>
  C8, as the specification words it, fails: a transport error on the first status request
  ends \<^verbatim>\<open>waitForVideo\<close> with that error after one request, though no terminal status was
  observed and the ceiling is far.
\<close>

theorem waitForVideo_bounded_counterexample:
  "waitForVideo (Some ''vid1'')
     (NetworkFailure ''Failed to fetch'' # replicate 200 (HttpSuccess (Some processing_status))) =
     (Some (Inl (TypeError ''Failed to fetch'')), [FetchVideoStatus (Some ''vid1'')]) \<and>
   first_terminal
     (NetworkFailure ''Failed to fetch'' # replicate 200 (HttpSuccess (Some processing_status))) = None"
  by code_simp

section \<open>The runs of generateVideo\<close>

lemma poll_once_events: "list_all (loop_event vid) (snd (snd (poll_once vid n r h)))"
proof (cases r)
  case (NetworkFailure m)
  then show ?thesis by (simp add: poll_once_NetworkFailure)
next
  case (HttpFailure c t b)
  then show ?thesis by (simp add: poll_once_HttpFailure)
next
  case (InvalidJson m)
  then show ?thesis by (simp add: poll_once_InvalidJson)
next
  case NullBody
  then show ?thesis by (simp add: poll_once_NullBody)
next
  case (HttpSuccess d)
  show ?thesis
  proof (cases d)
    case None
    with HttpSuccess show ?thesis by (simp add: poll_once_undefined)
  next
    case (Some st)
    consider (c) "remote_status st = ''completed''" | (f) "remote_status st = ''failed''"
      | (p) "\<not> terminal st"
      by (auto simp: terminal_def)
    then show ?thesis
    proof cases
      case c
      with HttpSuccess Some show ?thesis
        by (simp add: poll_once_completed Let_def split: prod.splits sum.splits)
    next
      case f
      with HttpSuccess Some show ?thesis
        by (simp add: poll_once_failed split: prod.splits sum.splits)
    next
      case p
      with HttpSuccess Some show ?thesis
        by (simp add: poll_once_in_progress)
    qed
  qed
qed

lemma loop_events: "list_all (loop_event vid) (snd (snd (waitForVideoWithHistory_loop vid n rs h)))"
proof (induction rs arbitrary: n h)
  case Nil
  then show ?case by simp
next
  case (Cons r rs)
  obtain res h' evs where p: "poll_once vid n r h = (res, h', evs)"
    by (cases "poll_once vid n r h") auto
  with poll_once_events [of vid n r h] have "list_all (loop_event vid) evs" by simp
  with p Cons [of "n + 1" h'] show ?case
    by (auto split: sum.splits option.splits prod.splits)
qed

lemma uploadAsset_events: "list_all voice_event (snd (uploadAsset b t r))"
  by (simp add: uploadAsset_def Let_def)

lemma voice_step_events: "list_all voice_event (snd (voice_step w sel))"
proof (cases sel)
  case custom
  show ?thesis
  proof (cases "conversion w")
    case None
    with custom show ?thesis
      by (simp add: voice_step_def convertWebMToMP3_def show_def)
  next
    case (Some wav)
    obtain ur uevs where u: "uploadAsset wav ''audio'' (upload_reply w) = (ur, uevs)"
      by (cases "uploadAsset wav ''audio'' (upload_reply w)") auto
    with uploadAsset_events [of wav "''audio''" "upload_reply w"] have "list_all voice_event uevs"
      by simp
    with custom Some u show ?thesis
      by (simp add: voice_step_def convertWebMToMP3_def show_def showUploading_def
          split: sum.splits option.splits)
  qed
next
  case (preset v)
  then show ?thesis
    by (simp add: voice_step_def showTranscribing_def)
qed

lemma generateVideo_invalid:
  "\<not> valid (validate w) \<Longrightarrow>
   generateVideo w h = (Some (Inr ()), h, [Alert (validation_message (validate w))])"
  by (simp add: generateVideo_def generateVideo_try_def Let_def)

lemma valid_selection:
  "valid (validate w) \<Longrightarrow> \<exists>sel. getSelectedVoice (voiceSelector w) = Some sel"
  by (auto simp: validate_def split: if_splits)

lemma generateVideo_voice_failed:
  "valid (validate w) \<Longrightarrow> getSelectedVoice (voiceSelector w) = Some sel \<Longrightarrow>
   voice_step w sel = (Inl e, evs1) \<Longrightarrow>
   generateVideo w h = (Some (Inr ()), h, show ''Starting...'' @ evs1 @ shown_error e)"
  by (simp add: generateVideo_def generateVideo_try_def Let_def shown_error_def)

lemma generateVideo_submitted:
  "valid (validate w) \<Longrightarrow> getSelectedVoice (voiceSelector w) = Some sel \<Longrightarrow>
   voice_step w sel = (Inr (t, vc), evs1) \<Longrightarrow>
   submit_and_wait w sel t vc h = (r, h1, evs2) \<Longrightarrow>
   generateVideo w h =
     (case r of
        Some (Inl e) \<Rightarrow> (Some (Inr ()), h1, show ''Starting...'' @ evs1 @ evs2 @ shown_error e)
      | _ \<Rightarrow> (r, h1, show ''Starting...'' @ evs1 @ evs2))"
  by (simp add: generateVideo_def generateVideo_try_def Let_def shown_error_def
      split: option.splits sum.splits)

lemma createVideo_eq:
  "createVideo c reply = (fst (createVideo c reply), [FetchCreateVideo (requestBody c)])"
  by (simp add: createVideo_def)

lemma createVideo_Inr:
  "fst (createVideo c reply) = Inr vid \<longleftrightarrow> reply = HttpSuccess vid"
  by (auto simp: createVideo_def split: fetched.splits error_body.splits)

lemma submit_and_wait_create_failed:
  assumes "fst (createVideo (render_config w t vc) (create_reply w)) = Inl e"
  shows "submit_and_wait w sel t vc h =
           (Some (Inl e), h, showGenerating @ [FetchCreateVideo (requestBody (render_config w t vc))])"
proof -
  obtain cc an where cs: "character_step (selectedAvatar w) (selectedCharacter w) = (cc, an)"
    by (cases "character_step (selectedAvatar w) (selectedCharacter w)") auto
  then have rc: "render_config w t vc = \<lparr>cfg_character = cc, cfg_voice = vc, cfg_text = t\<rparr>"
    by (simp add: render_config_def)
  from assms createVideo_eq [of "render_config w t vc" "create_reply w"]
  have "createVideo \<lparr>cfg_character = cc, cfg_voice = vc, cfg_text = t\<rparr> (create_reply w) =
      (Inl e, [FetchCreateVideo (requestBody (render_config w t vc))])"
    by (simp add: rc)
  then show ?thesis
    by (simp add: submit_and_wait_def cs)
qed

lemma submit_and_wait_submitted:
  assumes "create_reply w = HttpSuccess vid"
  shows "submit_and_wait w sel t vc h =
     (case addVideo (the_entry w sel vid t) (clock w) h of
        (Inl e, h1) \<Rightarrow>
          (Some (Inl e), h1,
           showGenerating @ [FetchCreateVideo (requestBody (render_config w t vc)),
              AddVideo (the_entry w sel vid t) (Inl e)])
      | (Inr k, h1) \<Rightarrow>
          (case waitForVideoWithHistory vid (status_replies w) h1 of
             (lres, h2, levs) \<Rightarrow>
               (case lres of None \<Rightarrow> None | Some (Inl e) \<Rightarrow> Some (Inl e)
                  | Some (Inr url) \<Rightarrow> Some (Inr ()),
                h2,
                showGenerating @ [FetchCreateVideo (requestBody (render_config w t vc)),
                   AddVideo (the_entry w sel vid t) (Inr k)] @ levs @
                (case lres of Some (Inr url) \<Rightarrow> [DisplayVideo url vid] @ showComplete | _ \<Rightarrow> []))))"
proof -
  obtain cc an where cs: "character_step (selectedAvatar w) (selectedCharacter w) = (cc, an)"
    by (cases "character_step (selectedAvatar w) (selectedCharacter w)") auto
  then have rc: "render_config w t vc = \<lparr>cfg_character = cc, cfg_voice = vc, cfg_text = t\<rparr>"
    and en: "the_entry w sel vid t = history_entry w sel vid an t"
    by (simp_all add: render_config_def the_entry_def)
  have "createVideo \<lparr>cfg_character = cc, cfg_voice = vc, cfg_text = t\<rparr> (create_reply w) =
      (Inr vid, [FetchCreateVideo (requestBody (render_config w t vc))])"
    using assms by (simp add: rc createVideo_def)
  then show ?thesis
    unfolding submit_and_wait_def cs en
    by (simp add: Let_def split: prod.splits sum.splits option.splits)
qed

lemma generateVideo_cases [consumes 1, case_names invalid voice_failed create_failed add_failed polling]:
  assumes run: "generateVideo w h = (res, h', evs)"
  obtains
    (invalid) "\<not> valid (validate w)" "res = Some (Inr ())" "h' = h"
      "evs = [Alert (validation_message (validate w))]"
  | (voice_failed) sel e evs1 where
      "valid (validate w)" "getSelectedVoice (voiceSelector w) = Some sel"
      "voice_step w sel = (Inl e, evs1)" "res = Some (Inr ())" "h' = h"
      "evs = show ''Starting...'' @ evs1 @ shown_error e"
  | (create_failed) sel t vc evs1 e where
      "valid (validate w)" "getSelectedVoice (voiceSelector w) = Some sel"
      "voice_step w sel = (Inr (t, vc), evs1)"
      "fst (createVideo (render_config w t vc) (create_reply w)) = Inl e"
      "res = Some (Inr ())" "h' = h"
      "evs = show ''Starting...'' @ evs1 @ showGenerating @
             [FetchCreateVideo (requestBody (render_config w t vc))] @ shown_error e"
  | (add_failed) sel t vc evs1 vid e where
      "valid (validate w)" "getSelectedVoice (voiceSelector w) = Some sel"
      "voice_step w sel = (Inr (t, vc), evs1)"
      "create_reply w = HttpSuccess vid"
      "addVideo (the_entry w sel vid t) (clock w) h = (Inl e, h')"
      "res = Some (Inr ())"
      "evs = show ''Starting...'' @ evs1 @ showGenerating @
             [FetchCreateVideo (requestBody (render_config w t vc)),
              AddVideo (the_entry w sel vid t) (Inl e)] @ shown_error e"
  | (polling) sel t vc evs1 vid k h1 lres levs where
      "valid (validate w)" "getSelectedVoice (voiceSelector w) = Some sel"
      "voice_step w sel = (Inr (t, vc), evs1)"
      "create_reply w = HttpSuccess vid"
      "addVideo (the_entry w sel vid t) (clock w) h = (Inr k, h1)"
      "waitForVideoWithHistory vid (status_replies w) h1 = (lres, h', levs)"
      "res = (case lres of None \<Rightarrow> None | Some x \<Rightarrow> Some (Inr ()))"
      "evs = show ''Starting...'' @ evs1 @ showGenerating @
             [FetchCreateVideo (requestBody (render_config w t vc)),
              AddVideo (the_entry w sel vid t) (Inr k)] @ levs @
             (case lres of None \<Rightarrow> [] | Some (Inl e) \<Rightarrow> shown_error e
                | Some (Inr url) \<Rightarrow> [DisplayVideo url vid] @ showComplete)"
proof (cases "valid (validate w)")
  case False
  with run generateVideo_invalid [OF False, of h] show thesis
    by (auto intro: invalid)
next
  case True
  then obtain sel where sel: "getSelectedVoice (voiceSelector w) = Some sel"
    by (auto dest: valid_selection)
  obtain vr evs1 where vs: "voice_step w sel = (vr, evs1)"
    by (cases "voice_step w sel") auto
  show thesis
  proof (cases vr)
    case (Inl e)
    with run generateVideo_voice_failed [OF True sel, of e evs1 h] vs True sel show thesis
      by (auto intro: voice_failed)
  next
    case (Inr tv)
    obtain t vc where tv: "tv = (t, vc)" by (cases tv) auto
    obtain r h2 evs2 where sw: "submit_and_wait w sel t vc h = (r, h2, evs2)"
      by (cases "submit_and_wait w sel t vc h") auto
    note gen = generateVideo_submitted [OF True sel vs [unfolded Inr tv] sw]
    show thesis
    proof (cases "fst (createVideo (render_config w t vc) (create_reply w))")
      case (Inl e)
      from submit_and_wait_create_failed [OF Inl, of sel h] sw gen run
      have "res = Some (Inr ())" "h' = h"
        "evs = show ''Starting...'' @ evs1 @ showGenerating @
             [FetchCreateVideo (requestBody (render_config w t vc))] @ shown_error e"
        by auto
      with True sel vs Inr tv Inl show thesis
        by (auto intro: create_failed)
    next
      case (Inr vid)
      then have reply: "create_reply w = HttpSuccess vid"
        by (simp add: createVideo_Inr)
      note sub = submit_and_wait_submitted [OF reply, of sel t vc h]
      obtain ar h1 where add: "addVideo (the_entry w sel vid t) (clock w) h = (ar, h1)"
        by (cases "addVideo (the_entry w sel vid t) (clock w) h") auto
      show thesis
      proof (cases ar)
        case (Inl e)
        with sub add sw gen run
        have "res = Some (Inr ())" "h' = h1"
          "evs = show ''Starting...'' @ evs1 @ showGenerating @
             [FetchCreateVideo (requestBody (render_config w t vc)),
              AddVideo (the_entry w sel vid t) (Inl e)] @ shown_error e"
          by auto
        with True sel vs \<open>vr = Inr tv\<close> tv reply add Inl show thesis
          by (auto intro: add_failed)
      next
        case (Inr k)
        obtain lres h3 levs where
          loop: "waitForVideoWithHistory vid (status_replies w) h1 = (lres, h3, levs)"
          by (cases "waitForVideoWithHistory vid (status_replies w) h1") auto
        with sub add Inr sw gen run
        have "res = (case lres of None \<Rightarrow> None | Some x \<Rightarrow> Some (Inr ()))" "h' = h3"
          "evs = show ''Starting...'' @ evs1 @ showGenerating @
             [FetchCreateVideo (requestBody (render_config w t vc)),
              AddVideo (the_entry w sel vid t) (Inr k)] @ levs @
             (case lres of None \<Rightarrow> [] | Some (Inl e) \<Rightarrow> shown_error e
                | Some (Inr url) \<Rightarrow> [DisplayVideo url vid] @ showComplete)"
          by (auto split: option.splits sum.splits)
        with True sel vs \<open>vr = Inr tv\<close> tv reply add Inr loop show thesis
          by (auto intro: polling)
      qed
    qed
  qed
qed

lemma voice_step_event:
  "voice_step w sel = (r, evs1) \<Longrightarrow> e \<in> set evs1 \<Longrightarrow> voice_event e"
  using voice_step_events [of w sel] by (simp add: list_all_iff)

lemma loop_event_mem:
  "waitForVideoWithHistory vid rs h = (lres, h', levs) \<Longrightarrow> e \<in> set levs \<Longrightarrow> loop_event vid e"
  using loop_events [of vid 0 rs h] by (simp add: list_all_iff waitForVideoWithHistory_def)


lemma voice_event_not_update: "voice_event e \<Longrightarrow> \<not> is_update e"
  by (cases e) auto

lemma shown_error_events:
  "set (shown_error e) =
     {ModalStatus (''Error: '' @ or_default (Some (message e)) ''Failed to generate video''),
      ModalHideAfter 3000}"
  by (auto simp: shown_error_def showError_def)

lemma loop_failed_run:
  assumes "list_all ordinary rs" "index_get k s = Some v"
    "first_terminal rs = Some st" "remote_status st = ''failed''"
  shows "\<exists>evs0. waitForVideoWithHistory_loop (Some k) n rs (Some s) =
           (Some (Inl (Error failed_message)), Some (put (v\<lparr>status := ''failed''\<rparr>) s),
            evs0 @ [UpdateVideo (Some k) [Set_status ''failed''] (Inr ())]) \<and>
           \<not> list_ex is_update evs0"
  using assms(1,3)
proof (induction rs arbitrary: n)
  case Nil
  then show ?case by simp
next
  case (Cons r rs)
  then have ord: "ordinary r" and ords: "list_all ordinary rs"
    by simp_all
  note IH = Cons.IH [OF ords]
  show ?case
  proof (cases r)
    case (NetworkFailure m)
    with Cons.prems have "first_terminal rs = Some st" by simp
    from IH [OF this, of "n + 1"] ord NetworkFailure show ?thesis
      by (auto simp: poll_once_NetworkFailure)
  next
    case (HttpFailure c t b)
    with Cons.prems have "first_terminal rs = Some st" by simp
    from IH [OF this, of "n + 1"] HttpFailure show ?thesis
      by (auto simp: poll_once_HttpFailure failed_message_def)
  next
    case (InvalidJson m)
    with Cons.prems have "first_terminal rs = Some st" by simp
    from IH [OF this, of "n + 1"] ord InvalidJson show ?thesis
      by (auto simp: poll_once_InvalidJson)
  next
    case NullBody
    with Cons.prems have "first_terminal rs = Some st" by simp
    from IH [OF this, of "n + 1"] ord NullBody show ?thesis
      by (auto simp: poll_once_NullBody null_data_not_failed)
  next
    case (HttpSuccess d)
    show ?thesis
    proof (cases d)
      case None
      with HttpSuccess Cons.prems have "first_terminal rs = Some st" by simp
      from IH [OF this, of "n + 1"] HttpSuccess None show ?thesis
        by (auto simp: poll_once_undefined undefined_status_not_failed)
    next
      case (Some st')
      show ?thesis
      proof (cases "terminal st'")
        case True
        with Cons.prems HttpSuccess Some have "st' = st" by simp
        with assms(2,4) HttpSuccess Some show ?thesis
          by (simp add: poll_once_failed updateVideo_found)
      next
        case False
        with HttpSuccess Some Cons.prems have "first_terminal rs = Some st" by simp
        from IH [OF this, of "n + 1"] HttpSuccess Some False show ?thesis
          by (auto simp: poll_once_in_progress)
      qed
    qed
  qed
qed



text \<open>
  In every run of \<^verbatim>\<open>generateVideo\<close> that polls a job with a defined id \<open>k\<close> and whose
  status replies (none of them a browser-worded error reading
  \<^verbatim>\<open>Video generation failed\<close>) have \<^verbatim>\<open>failed\<close> as their first terminal status, the run
  ends by showing \<^verbatim>\<open>Error: Video generation failed\<close> on the loading modal, right after the
  one successful \<^verbatim>\<open>updateVideo\<close> of the run, and the store it leaves holds exactly one
  record for \<open>k\<close>, with status \<^verbatim>\<open>failed\<close>.
\<close>

lemma failed_render_recorded_before_surfaced:
  assumes run: "generateVideo w h = (res, h', evs)"
    and poll: "FetchVideoStatus (Some k) \<in> set evs"
    and ord: "list_all ordinary (status_replies w)"
    and ft: "first_terminal (status_replies w) = Some st"
    and failed: "remote_status st = ''failed''"
  shows "res = Some (Inr ()) \<and>
         (\<exists>evs0 v. evs = evs0 @ [UpdateVideo (Some k) [Set_status ''failed''] (Inr ())] @
                           [ModalStatus ''Error: Video generation failed'', ModalHideAfter 3000] \<and>
                   \<not> list_ex is_update evs0 \<and>
                   with_videoId k h' = [v] \<and> status v = ''failed'')"
  using run
proof (cases rule: generateVideo_cases)
  case invalid
  with poll show ?thesis by simp
next
  case (voice_failed sel e evs1)
  with poll show ?thesis
    by (auto simp: show_def shown_error_events dest: voice_step_event)
next
  case (create_failed sel t vc evs1 e)
  with poll show ?thesis
    by (auto simp: show_def showGenerating_def shown_error_events dest: voice_step_event)
next
  case (add_failed sel t vc evs1 vid e)
  with poll show ?thesis
    by (auto simp: show_def showGenerating_def shown_error_events dest: voice_step_event)
next
  case (polling sel t vc evs1 vid key1 h1 lres levs)
  let ?entry = "the_entry w sel vid t"
  let ?v = "new_video ?entry (clock w) key1"
  let ?before = "show ''Starting...'' @ evs1 @ showGenerating @
             [FetchCreateVideo (requestBody (render_config w t vc)), AddVideo ?entry (Inr key1)]"
  from poll polling have "FetchVideoStatus (Some k) \<in> set levs"
    by (auto simp: show_def showGenerating_def shown_error_events showComplete_def
        dest: voice_step_event split: option.splits sum.splits)
  with polling(6) have vid: "vid = Some k"
    by (auto dest: loop_event_mem)
  from addVideo_Inr [OF polling(5)] obtain s where
    s: "h = Some s" "\<not> violates_unique ?v s"
       "h1 = Some (s\<lparr>records := records s @ [?v], keygen := keygen s + 1\<rparr>)"
    by blast
  let ?s1 = "s\<lparr>records := records s @ [?v], keygen := keygen s + 1\<rparr>"
  have vv: "videoId ?v = Some k"
    using vid by (simp add: the_entry_def history_entry_def new_video_def)
  with s(2) have "index_get k s = None"
    by (simp add: violates_unique_def)
  with vv have found: "index_get k ?s1 = Some ?v"
    by (simp add: index_get_def find_append_case)
  from loop_failed_run [OF ord found ft failed, of 0] obtain evs0 where
    loop: "waitForVideoWithHistory (Some k) (status_replies w) (Some ?s1) =
           (Some (Inl (Error failed_message)), Some (put (?v\<lparr>status := ''failed''\<rparr>) ?s1),
            evs0 @ [UpdateVideo (Some k) [Set_status ''failed''] (Inr ())])"
    and noupd: "\<not> list_ex is_update evs0"
    by (auto simp: waitForVideoWithHistory_def)
  with polling(6) vid s(3) have
    lres: "lres = Some (Inl (Error failed_message))"
    and h': "h' = Some (put (?v\<lparr>status := ''failed''\<rparr>) ?s1)"
    and levs: "levs = evs0 @ [UpdateVideo (Some k) [Set_status ''failed''] (Inr ())]"
    by simp_all
  have res: "res = Some (Inr ())"
    using polling(7) lres by simp
  have evs: "evs = (?before @ evs0) @ [UpdateVideo (Some k) [Set_status ''failed''] (Inr ())] @
                           [ModalStatus ''Error: Video generation failed'', ModalHideAfter 3000]"
    using polling(8) lres levs
    by (simp add: shown_error_def showError_def or_default_def failed_message_def)
  have clean: "\<not> list_ex is_update (?before @ evs0)"
    using noupd polling(3)
    by (auto simp: list_ex_iff show_def showGenerating_def
        dest: voice_step_event voice_event_not_update)
  have store: "with_videoId k h' = [?v\<lparr>status := ''failed''\<rparr>]"
    unfolding h' using s(2) vv by (intro with_videoId_put_new) simp_all
  from res evs clean store show ?thesis
    by (intro conjI exI [of _ "?before @ evs0"] exI [of _ "?v\<lparr>status := ''failed''\<rparr>"]) simp_all
qed

text \<open>
  C4 does not hold of the code. When the render submission is answered without a
  \<^verbatim>\<open>video_id\<close>, the entry is saved with an undefined id and polling starts; on the status
  \<^verbatim>\<open>failed\<close> the \<^verbatim>\<open>updateVideo\<close> is rejected, the \<^verbatim>\<open>catch\<close> of the loop takes that
  for a network error, and the run sleeps and polls on: nothing is shown, the record
  stays \<^verbatim>\<open>processing\<close> and the promise stays pending.
\<close>

theorem failed_render_not_surfaced:
  "generateVideo orphan_studio (init None) =
   (None,
    Some \<lparr>records =
            [\<lparr>key = 1, videoId = None, videoUrl = None, status = ''processing'',
              createdAt = ''2024-01-01T00:00:00.000Z'', avatarId = Some ''av1'',
              avatarName = Some ''Me'', voiceType = Some ''preset'', voiceName = Some ''Voice'',
              transcript = Some ''hello'', duration = None, thumbnailUrl = None\<rparr>],
          keygen = 2\<rparr>,
    [ModalShow ''Starting...'', ModalStatus ''Transcribing your voice...'',
     GetTranscript (Some (Blob ''audio/webm'' ''abc'')),
     ModalStatus ''Generating your video...'',
     FetchCreateVideo
       \<lparr>rb_character = Some (PhotoCharacter ''ph1''), rb_voice = TextInput ''v1'' ''hello'',
        rb_width = 1280, rb_height = 720, rb_aspect_ratio = ''16:9'', rb_test = False\<rparr>,
     AddVideo
       \<lparr>videoId' = None, videoUrl' = None, status' = Some ''processing'',
        avatarId' = Some ''av1'', avatarName' = Some ''Me'', voiceType' = Some ''preset'',
        voiceName' = Some ''Voice'', transcript' = Some ''hello'', duration' = None,
        thumbnailUrl' = None\<rparr> (Inr 1),
     FetchVideoStatus None,
     UpdateVideo None [Set_status ''failed''] (Inl DataError),
     Sleep 3000])"
  by code_simp

text \<open>
  C5. When the audio is missing, or both the avatar and the custom character are, or the
  voice selection is, \<^verbatim>\<open>generateVideo\<close> does nothing but \<^verbatim>\<open>alert\<close> the message of the
  first of these that is missing, in that order: it calls no remote service and leaves
  the history as it is. The three messages differ from one another.
\<close>

theorem validation_failure:
  assumes "audioBlob w = None \<or> (selectedAvatar w = None \<and> selectedCharacter w = None) \<or>
           getSelectedVoice (voiceSelector w) = None"
  shows "generateVideo w h = (Some (Inr ()), h, [Alert (validation_message (validate w))]) \<and>
         \<not> list_ex is_remote (snd (snd (generateVideo w h))) \<and>
         validation_message (validate w) =
           (if audioBlob w = None then ''Please record your voice first''
            else if selectedAvatar w = None \<and> selectedCharacter w = None
              then ''Please select an avatar or character''
            else ''Please select a voice option'') \<and>
         distinct [''Please record your voice first'', ''Please select an avatar or character'',
                   ''Please select a voice option'']"
proof -
  from assms have inv: "\<not> valid (validate w)"
    by (auto simp: validate_def)
  from assms have msg: "validation_message (validate w) =
           (if audioBlob w = None then ''Please record your voice first''
            else if selectedAvatar w = None \<and> selectedCharacter w = None
              then ''Please select an avatar or character''
            else ''Please select a voice option'')"
    by (auto simp: validate_def)
  from generateVideo_invalid [OF inv, of h] msg show ?thesis
    by simp
qed

theorem validation_failure_witness:
  "generateVideo silent_studio (init None) =
     (Some (Inr ()), init None, [Alert ''Please record your voice first'']) \<and>
   \<not> list_ex is_remote (snd (snd (generateVideo silent_studio (init None))))"
proof -
  have none: "audioBlob silent_studio = None"
    by (simp add: silent_studio_def)
  then have "audioBlob silent_studio = None \<or>
      (selectedAvatar silent_studio = None \<and> selectedCharacter silent_studio = None) \<or>
      getSelectedVoice (voiceSelector silent_studio) = None"
    by simp
  from validation_failure [OF this, of "init None"] none show ?thesis
    by simp
qed

text \<open>
  C7 does not hold of the code. With the recorded voice selected, an upload that
  \<^verbatim>\<open>fetch\<close> rejects is shown as the fixed CORS message when the browser words the
  rejection \<^verbatim>\<open>Failed to fetch\<close>, as Chromium does, and as the raw message when it words it
  \<^verbatim>\<open>Load failed\<close>, as Safari does: the \<^verbatim>\<open>catch\<close> tells a transport error by the
  substrings \<^verbatim>\<open>fetch\<close> and \<^verbatim>\<open>CORS\<close> of the message only.
\<close>

theorem upload_error_wording:
  "generateVideo safari_studio (init None) =
     (Some (Inr ()), init None,
      [ModalShow ''Starting...'', ModalShow ''Converting audio...'',
       ConvertAudio (Some (Blob ''audio/webm'' ''abc'')),
       ModalStatus ''Uploading assets...'',
       FetchUploadAsset ''audio/x-wav'' (Blob ''audio/wav'' ''RIFF''),
       ModalStatus ''Error: Load failed'', ModalHideAfter 3000]) \<and>
   generateVideo chromium_studio (init None) =
     (Some (Inr ()), init None,
      [ModalShow ''Starting...'', ModalShow ''Converting audio...'',
       ConvertAudio (Some (Blob ''audio/webm'' ''abc'')),
       ModalStatus ''Uploading assets...'',
       FetchUploadAsset ''audio/x-wav'' (Blob ''audio/wav'' ''RIFF''),
       ModalStatus ''Error: CORS Error: Cannot upload audio from localhost. Please deploy to a server or use HeyGen API with proper CORS configuration.'',
       ModalHideAfter 3000]) \<and>
   upload_reply safari_studio = NetworkFailure ''Load failed'' \<and>
   upload_reply chromium_studio = NetworkFailure ''Failed to fetch'' \<and>
   getSelectedVoice (voiceSelector safari_studio) = Some custom \<and>
   getSelectedVoice (voiceSelector chromium_studio) = Some custom"
  by code_simp





text \<open>
  C10. In every run of \<^verbatim>\<open>generateVideo\<close> that submits a render, the character of the
  request body is the photo character with the \<^verbatim>\<open>heygenId\<close> of the selected custom
  character whenever one is selected, whatever avatar is selected beside it; it is the
  selected avatar, with style \<^verbatim>\<open>normal\<close> when it has none, only when no custom character
  is selected. One of the two is always selected then.
\<close>

theorem custom_character_takes_precedence:
  assumes run: "generateVideo w h = (res, h', evs)"
    and sub: "FetchCreateVideo body \<in> set evs"
  shows "rb_character body =
           (case selectedCharacter w of
              Some c \<Rightarrow> Some (PhotoCharacter (heygenId c))
            | None \<Rightarrow>
                (case selectedAvatar w of
                   Some a \<Rightarrow> Some (AvatarCharacter (avatar_id a) (or_default (avatar_style a) ''normal''))
                 | None \<Rightarrow> None)) \<and>
         (selectedCharacter w \<noteq> None \<or> selectedAvatar w \<noteq> None)"
proof -
  have body: "rb_character (requestBody (render_config w t vc)) =
           (case selectedCharacter w of
              Some c \<Rightarrow> Some (PhotoCharacter (heygenId c))
            | None \<Rightarrow>
                (case selectedAvatar w of
                   Some a \<Rightarrow> Some (AvatarCharacter (avatar_id a) (or_default (avatar_style a) ''normal''))
                 | None \<Rightarrow> None))" for t vc
    by (simp add: requestBody_def render_config_def character_step_def split: option.splits)
  have persona: "valid (validate w) \<Longrightarrow> selectedCharacter w \<noteq> None \<or> selectedAvatar w \<noteq> None"
    by (auto simp: validate_def split: if_splits)
  from run show ?thesis
  proof (cases rule: generateVideo_cases)
    case invalid
    with sub show ?thesis by simp
  next
    case (voice_failed sel e evs1)
    with sub show ?thesis
      by (auto simp: show_def shown_error_events dest: voice_step_event)
  next
    case (create_failed sel t vc evs1 e)
    with sub have "body = requestBody (render_config w t vc)"
      by (auto simp: show_def showGenerating_def shown_error_events dest: voice_step_event)
    with body persona create_failed(1) show ?thesis by simp
  next
    case (add_failed sel t vc evs1 vid e)
    with sub have "body = requestBody (render_config w t vc)"
      by (auto simp: show_def showGenerating_def shown_error_events dest: voice_step_event)
    with body persona add_failed(1) show ?thesis by simp
  next
    case (polling sel t vc evs1 vid k h1 lres levs)
    with sub have "body = requestBody (render_config w t vc)"
      by (auto simp: show_def showGenerating_def shown_error_events showComplete_def
          dest: voice_step_event loop_event_mem split: option.splits sum.splits)
    with body persona polling(1) show ?thesis by simp
  qed
qed

theorem custom_character_takes_precedence_witness:
  "selectedAvatar studio = Some anna \<and> selectedCharacter studio = Some my_character \<and>
   FetchCreateVideo
     \<lparr>rb_character = Some (PhotoCharacter ''ph1''), rb_voice = TextInput ''v1'' ''hello'',
      rb_width = 1280, rb_height = 720, rb_aspect_ratio = ''16:9'', rb_test = False\<rparr>
     \<in> set (snd (snd (generateVideo studio (init None)))) \<and>
   rb_character
     \<lparr>rb_character = Some (PhotoCharacter ''ph1''), rb_voice = TextInput ''v1'' ''hello'',
      rb_width = 1280, rb_height = 720, rb_aspect_ratio = ''16:9'', rb_test = False\<rparr> =
     Some (PhotoCharacter (heygenId my_character))"
proof -
  have sub: "FetchCreateVideo
     \<lparr>rb_character = Some (PhotoCharacter ''ph1''), rb_voice = TextInput ''v1'' ''hello'',
      rb_width = 1280, rb_height = 720, rb_aspect_ratio = ''16:9'', rb_test = False\<rparr>
     \<in> set (snd (snd (generateVideo studio (init None))))"
    by code_simp
  have run: "generateVideo studio (init None) =
      (fst (generateVideo studio (init None)), fst (snd (generateVideo studio (init None))),
       snd (snd (generateVideo studio (init None))))"
    by simp
  have sel: "selectedAvatar studio = Some anna" "selectedCharacter studio = Some my_character"
    by (simp_all add: studio_def)
  from custom_character_takes_precedence [OF run sub] sel sub show ?thesis
    by simp
qed

end
